theory Spec2Isabelle
  imports Complex_Main "HOL-Library.AList"
begin

section \<open>Decoded messages and failures\<close>

text \<open>
  Both adapters receive text frames, decode them with \<^verbatim>\<open>json.loads(msg, parse_float=Decimal)\<close>
  and work on the decoded document. \<open>jval\<close> is that document: a JSON number without a
  fraction is \<open>JInt\<close>, one with a fraction is the exact decimal \<open>JDec\<close>, an object is
  the association list of its members (keys distinct, as in a Python dict).
\<close>

datatype jval =
    JNull
  | JBool bool
  | JInt int
  | JDec rat
  | JStr string
  | JArr "jval list"
  | JObj "(string \<times> jval) list"

type_synonym jdict = "(string \<times> jval) list"

text \<open>Every exception the modelled code can raise is a value; \<open>Inl\<close> carries it.\<close>

datatype error =
    KeyError string
  | TypeError
  | ValueError
  | AttributeError
  | IndexError
  | InvalidOperation
  | UnknownSymbol string
  | FetchFailed string

definition bnd :: "error + 'a \<Rightarrow> ('a \<Rightarrow> error + 'b) \<Rightarrow> error + 'b" where
  "bnd m f = (case m of Inl e \<Rightarrow> Inl e | Inr x \<Rightarrow> f x)"

text \<open>\<^verbatim>\<open>d[k]\<close> on a dict: KeyError when the key is missing.\<close>

definition getitem :: "jdict \<Rightarrow> string \<Rightarrow> error + jval" where
  "getitem d k = (case map_of d k of None \<Rightarrow> Inl (KeyError k) | Some v \<Rightarrow> Inr v)"

text \<open>
  Update identifiers and sequence numbers are JSON integers on the wire. The comparisons
  and the \<^verbatim>\<open>+ 1\<close> of the source are modelled on integers; any other JSON value in such a
  field is reported as \<open>TypeError\<close>.
\<close>

definition as_int :: "jval \<Rightarrow> error + int" where
  "as_int v = (case v of JInt n \<Rightarrow> Inr n | _ \<Rightarrow> Inl TypeError)"

definition as_dict :: "jval \<Rightarrow> error + jdict" where
  "as_dict v = (case v of JObj d \<Rightarrow> Inr d | _ \<Rightarrow> Inl TypeError)"

definition as_list :: "jval \<Rightarrow> error + jval list" where
  "as_list v = (case v of JArr xs \<Rightarrow> Inr xs | _ \<Rightarrow> Inl TypeError)"

definition as_str :: "jval \<Rightarrow> error + string" where
  "as_str v = (case v of JStr s \<Rightarrow> Inr s | _ \<Rightarrow> Inl TypeError)"

definition get_int :: "jdict \<Rightarrow> string \<Rightarrow> error + int" where
  "get_int d k = bnd (getitem d k) as_int"

section \<open>Canonical values shared by both adapters\<close>

text \<open>A line written to the log \<^verbatim>\<open>feedhandler\<close>: its level, its text, the message it quotes.\<close>

datatype log_entry =
    LogWarning string "jval option"
  | LogError string "jval option"

datatype side = BID | ASK

datatype trade_side = BUY | SELL

text \<open>One side of a book: price to size. A side pair is indexed by \<open>BID\<close>/\<open>ASK\<close>.\<close>

type_synonym levels = "rat \<rightharpoonup> rat"

type_synonym l2 = "side \<Rightarrow> levels"

type_synonym delta = "side \<Rightarrow> (rat \<times> rat) list"

definition empty_l2 :: l2 where
  "empty_l2 = (\<lambda>_. Map.empty)"

definition empty_delta :: delta where
  "empty_delta = (\<lambda>_. [])"

section \<open>Binance\<close>

text \<open>
  The immutable part of a \<^verbatim>\<open>Binance\<close> instance, with the collaborators that are not part of
  the two modules: \<open>symbol_exchange_to_std\<close> (cryptofeed.standards), the \<open>Decimal\<close>
  constructor (\<open>None\<close> when it raises) and the REST connection \<open>conn_get\<close>, which
  answers the \<open>n\<close>-th request of the run for a URL with the decoded body (\<open>None\<close> when the
  request or the decoding fails).
\<close>

record binance =
  ws_endpoint :: string
  rest_endpoint :: string
  max_depth :: "int option"
  channels :: "string list"
  symbols :: "string list"
  subscription :: "(string \<times> string list) list"
  OPEN_INTEREST :: string
  symbol_exchange_to_std :: "string \<Rightarrow> string option"
  Decimal :: "jval \<Rightarrow> rat option"
  conn_get :: "nat \<Rightarrow> string \<Rightarrow> jval option"

text \<open>
  What the callbacks receive. Exchange timestamps pass through \<^verbatim>\<open>timestamp_normalize\<close>, a
  floating-point conversion outside the two modules: the event keeps its argument.
\<close>

datatype bevent =
    TradeCb jval string trade_side rat rat jval rat
  | TickerCb string rat rat "jval option" rat
  | LiquidationCb string jval rat rat jval rat
  | FundingCb string jval jval jval jval rat
  | BookCb l2 string bool delta jval rat

text \<open>
  The mutable part: the four dictionaries of \<^verbatim>\<open>_reset\<close>, and the observable trace (callbacks
  made, warnings logged, URLs requested). \<open>forced\<close> is a \<^verbatim>\<open>defaultdict(bool)\<close>.
\<close>

record bstate =
  forced :: "string \<rightharpoonup> bool"
  l2_book :: "string \<rightharpoonup> l2"
  last_update_id :: "string \<rightharpoonup> int"
  open_interest :: "string \<rightharpoonup> rat"
  events :: "bevent list"
  warnings :: "log_entry list"
  requests :: "string list"

definition binance_reset :: "bstate \<Rightarrow> bstate" where
  "binance_reset st = st\<lparr>forced := Map.empty, l2_book := Map.empty,
                          last_update_id := Map.empty, open_interest := Map.empty\<rparr>"

text \<open>Reading \<^verbatim>\<open>self.forced[pair]\<close>: a missing key reads as \<open>False\<close> and is inserted.\<close>

definition forced_get :: "bstate \<Rightarrow> string \<Rightarrow> bool" where
  "forced_get st pair = (case forced st pair of None \<Rightarrow> False | Some b \<Rightarrow> b)"

definition forced_touch :: "string \<Rightarrow> bstate \<Rightarrow> bstate" where
  "forced_touch pair st = st\<lparr>forced := (forced st)(pair \<mapsto> forced_get st pair)\<rparr>"

definition last_id :: "bstate \<Rightarrow> string \<Rightarrow> error + int" where
  "last_id st pair = (case last_update_id st pair of None \<Rightarrow> Inl (KeyError pair) | Some n \<Rightarrow> Inr n)"

definition missing_update :: "bstate \<Rightarrow> bstate" where
  "missing_update st =
     (binance_reset st)\<lparr>warnings := warnings st @ [LogWarning ''Missing book update detected, resetting book'' None]\<rparr>"

text \<open>
  \<^verbatim>\<open>_check_update_id\<close>: returns \<open>(skip_update, forced)\<close>. The four branches are those of the
  source, in its order; the chained comparison evaluates \<^verbatim>\<open>msg['u']\<close> only when its first
  half holds.
\<close>

definition binance_check_update_id ::
    "string \<Rightarrow> jdict \<Rightarrow> bstate \<Rightarrow> error + ((bool \<times> bool) \<times> bstate)" where
  "binance_check_update_id pair msg st =
     (let frc = \<not> forced_get st pair; st0 = forced_touch pair st in
      if frc then
        bnd (get_int msg ''u'') (\<lambda>u.
        bnd (last_id st0 pair) (\<lambda>l.
          if u \<le> l then Inr ((True, frc), st0)
          else
            bnd (get_int msg ''U'') (\<lambda>U.
              if U \<le> l + 1 \<and> l + 1 \<le> u then
                Inr ((False, frc),
                     st0\<lparr>last_update_id := (last_update_id st0)(pair \<mapsto> u),
                         forced := (forced st0)(pair \<mapsto> True)\<rparr>)
              else Inr ((True, frc), missing_update st0))))
      else
        bnd (last_id st0 pair) (\<lambda>l.
        bnd (get_int msg ''U'') (\<lambda>U.
          if l + 1 = U then
            bnd (get_int msg ''u'') (\<lambda>u.
              Inr ((False, frc), st0\<lparr>last_update_id := (last_update_id st0)(pair \<mapsto> u)\<rparr>))
          else Inr ((True, frc), missing_update st0))))"

subsection \<open>Snapshot\<close>

definition valid_depths :: "int list" where
  "valid_depths = [5, 10, 20, 50, 100, 500, 1000, 5000]"

text \<open>
  The first lines of \<^verbatim>\<open>_snapshot\<close>: a falsy \<^verbatim>\<open>self.max_depth\<close> (\<^verbatim>\<open>None\<close> or \<open>0\<close>) reads as
  1000; a depth outside the list runs the loop, which overwrites \<^verbatim>\<open>max_depth\<close> while it
  iterates.
\<close>

definition snapshot_limit :: "int option \<Rightarrow> int" where
  "snapshot_limit md =
     (let m = (case md of None \<Rightarrow> 1000 | Some n \<Rightarrow> if n \<noteq> 0 then n else 1000) in
      if m \<notin> set valid_depths
      then fold (\<lambda>d acc. if d > acc then d else acc) valid_depths m
      else m)"

text \<open>\<^verbatim>\<open>str\<close> of an integer, for the f-string of the URL.\<close>

fun str_nat :: "nat \<Rightarrow> string" where
  "str_nat n = (if n < 10 then [''0123456789'' ! n]
                else str_nat (n div 10) @ [''0123456789'' ! (n mod 10)])"

declare str_nat.simps [simp del]

definition str_int :: "int \<Rightarrow> string" where
  "str_int i = (if i < 0 then ''-'' @ str_nat (nat (- i)) else str_nat (nat i))"

definition snapshot_url :: "binance \<Rightarrow> string \<Rightarrow> string" where
  "snapshot_url B pair =
     rest_endpoint B @ ''/depth?symbol='' @ pair @ ''&limit='' @ str_int (snapshot_limit (max_depth B))"

definition item :: "jval list \<Rightarrow> nat \<Rightarrow> error + jval" where
  "item xs i = (if i < length xs then Inr (xs ! i) else Inl IndexError)"

definition decimal :: "binance \<Rightarrow> jval \<Rightarrow> error + rat" where
  "decimal B v = (case Decimal B v of None \<Rightarrow> Inl InvalidOperation | Some r \<Rightarrow> Inr r)"

definition std_symbol :: "binance \<Rightarrow> string \<Rightarrow> error + string" where
  "std_symbol B s = (case symbol_exchange_to_std B s of None \<Rightarrow> Inl (UnknownSymbol s) | Some p \<Rightarrow> Inr p)"

text \<open>One \<^verbatim>\<open>[price, amount]\<close> entry of a snapshot or of an update, decoded.\<close>

definition price_amount :: "binance \<Rightarrow> jval \<Rightarrow> error + (rat \<times> rat)" where
  "price_amount B upd =
     bnd (as_list upd) (\<lambda>xs.
     bnd (item xs 0) (\<lambda>p.
     bnd (decimal B p) (\<lambda>price.
     bnd (item xs 1) (\<lambda>a.
     bnd (decimal B a) (\<lambda>amount. Inr (price, amount))))))"

text \<open>The inner loop of \<^verbatim>\<open>_snapshot\<close> over one side of the response: a later entry for a
  price overwrites an earlier one.\<close>

fun snapshot_levels :: "binance \<Rightarrow> jval list \<Rightarrow> levels \<Rightarrow> error + levels" where
  "snapshot_levels B [] m = Inr m"
| "snapshot_levels B (upd # rest) m =
     bnd (price_amount B upd) (\<lambda>(price, amount). snapshot_levels B rest (m(price \<mapsto> amount)))"

definition side_levels :: "binance \<Rightarrow> jdict \<Rightarrow> string \<Rightarrow> error + levels" where
  "side_levels B resp s =
     bnd (getitem resp s) (\<lambda>v. bnd (as_list v) (\<lambda>xs. snapshot_levels B xs Map.empty))"

definition l2_of :: "levels \<Rightarrow> levels \<Rightarrow> l2" where
  "l2_of bs as = (\<lambda>s. case s of BID \<Rightarrow> bs | ASK \<Rightarrow> as)"

text \<open>
  \<^verbatim>\<open>_snapshot\<close>. It requests the URL, stores the identifier and the book, and returns: it makes
  no callback. A raised exception ends the handler; the model keeps no state for it.
\<close>

definition binance_snapshot :: "binance \<Rightarrow> string \<Rightarrow> bstate \<Rightarrow> error + bstate" where
  "binance_snapshot B pair st =
     (let url = snapshot_url B pair in
      case conn_get B (length (requests st)) url of
        None \<Rightarrow> Inl (FetchFailed url)
      | Some body \<Rightarrow>
          bnd (std_symbol B pair) (\<lambda>std_pair.
          bnd (as_dict body) (\<lambda>resp.
          bnd (get_int resp ''lastUpdateId'') (\<lambda>lid.
          bnd (side_levels B resp ''bids'') (\<lambda>bs.
          bnd (side_levels B resp ''asks'') (\<lambda>as.
            Inr (st\<lparr>requests := requests st @ [url],
                    last_update_id := (last_update_id st)(std_pair \<mapsto> lid),
                    l2_book := (l2_book st)(std_pair \<mapsto> l2_of bs as)\<rparr>)))))))"

subsection \<open>Book updates\<close>

definition book_of :: "bstate \<Rightarrow> string \<Rightarrow> error + l2" where
  "book_of st pair = (case l2_book st pair of None \<Rightarrow> Inl (KeyError pair) | Some bk \<Rightarrow> Inr bk)"

text \<open>
  The body of the inner loop of \<^verbatim>\<open>_book\<close> for one entry of one side: a zero amount deletes
  the level if it is there and only then records it in the delta; any other amount stores
  the level and records it.
\<close>

definition binance_apply_update ::
    "binance \<Rightarrow> string \<Rightarrow> side \<Rightarrow> jval \<Rightarrow> bstate \<times> delta \<Rightarrow> error + (bstate \<times> delta)" where
  "binance_apply_update B pair sd upd acc =
     (case acc of (st, dl) \<Rightarrow>
        bnd (price_amount B upd) (\<lambda>(price, amount).
        bnd (book_of st pair) (\<lambda>bk.
          if amount = 0 then
            (if bk sd price \<noteq> None then
               Inr (st\<lparr>l2_book := (l2_book st)(pair \<mapsto> bk(sd := (bk sd)(price := None)))\<rparr>,
                    dl(sd := dl sd @ [(price, amount)]))
             else Inr (st, dl))
          else
            Inr (st\<lparr>l2_book := (l2_book st)(pair \<mapsto> bk(sd := (bk sd)(price \<mapsto> amount)))\<rparr>,
                 dl(sd := dl sd @ [(price, amount)])))))"

fun binance_apply_updates ::
    "binance \<Rightarrow> string \<Rightarrow> side \<Rightarrow> jval list \<Rightarrow> bstate \<times> delta \<Rightarrow> error + (bstate \<times> delta)" where
  "binance_apply_updates B pair sd [] acc = Inr acc"
| "binance_apply_updates B pair sd (upd # rest) acc =
     bnd (binance_apply_update B pair sd upd acc) (binance_apply_updates B pair sd rest)"

definition binance_apply_side ::
    "binance \<Rightarrow> string \<Rightarrow> jdict \<Rightarrow> string \<Rightarrow> side \<Rightarrow> bstate \<times> delta \<Rightarrow> error + (bstate \<times> delta)" where
  "binance_apply_side B pair msg s sd acc =
     bnd (getitem msg s) (\<lambda>v. bnd (as_list v) (\<lambda>xs. binance_apply_updates B pair sd xs acc))"

text \<open>
  \<^verbatim>\<open>_book\<close> after the check has let the update through: the two loops over \<^verbatim>\<open>msg['b']\<close> and
  \<^verbatim>\<open>msg['a']\<close>, then the last line, which hands the book, the pair, the flag \<open>forced\<close>, the
  delta and the two timestamps to \<^verbatim>\<open>book_callback\<close> of the base class; the model records that
  call.
\<close>

definition binance_book_apply ::
    "binance \<Rightarrow> jdict \<Rightarrow> string \<Rightarrow> rat \<Rightarrow> bool \<Rightarrow> bstate \<Rightarrow> error + bstate" where
  "binance_book_apply B msg pair timestamp frc st =
     bnd (getitem msg ''E'') (\<lambda>ts.
     bnd (binance_apply_side B pair msg ''b'' BID (st, empty_delta)) (\<lambda>acc1.
     bnd (binance_apply_side B pair msg ''a'' ASK acc1) (\<lambda>(st3, dl).
     bnd (book_of st3 pair) (\<lambda>bk.
       Inr (st3\<lparr>events := events st3 @ [BookCb bk pair frc dl ts timestamp]\<rparr>)))))"

text \<open>\<^verbatim>\<open>_book\<close>: snapshot if the pair has no book, then the check, then the update.\<close>

definition binance_book :: "binance \<Rightarrow> jdict \<Rightarrow> string \<Rightarrow> rat \<Rightarrow> bstate \<Rightarrow> error + bstate" where
  "binance_book B msg exchange_pair timestamp st =
     bnd (std_symbol B exchange_pair) (\<lambda>pair.
     bnd (if l2_book st pair = None then binance_snapshot B exchange_pair st else Inr st) (\<lambda>st1.
     bnd (binance_check_update_id pair msg st1) (\<lambda>((skip_update, frc), st2).
       if skip_update then Inr st2
       else binance_book_apply B msg pair timestamp frc st2)))"

subsection \<open>Trades, tickers, liquidations, funding\<close>

text \<open>Python's truth value of a decoded JSON value, for \<^verbatim>\<open>SELL if msg['m'] else BUY\<close>.\<close>

fun truthy :: "jval \<Rightarrow> bool" where
  "truthy JNull = False"
| "truthy (JBool b) = b"
| "truthy (JInt n) = (n \<noteq> 0)"
| "truthy (JDec r) = (r \<noteq> 0)"
| "truthy (JStr s) = (s \<noteq> [])"
| "truthy (JArr xs) = (xs \<noteq> [])"
| "truthy (JObj d) = (d \<noteq> [])"

definition get_symbol :: "binance \<Rightarrow> jdict \<Rightarrow> string \<Rightarrow> error + string" where
  "get_symbol B d k = bnd (getitem d k) (\<lambda>v. bnd (as_str v) (std_symbol B))"

definition get_decimal :: "binance \<Rightarrow> jdict \<Rightarrow> string \<Rightarrow> error + rat" where
  "get_decimal B d k = bnd (getitem d k) (decimal B)"

definition emit :: "bevent \<Rightarrow> bstate \<Rightarrow> bstate" where
  "emit ev st = st\<lparr>events := events st @ [ev]\<rparr>"

definition binance_trade :: "binance \<Rightarrow> jdict \<Rightarrow> rat \<Rightarrow> bstate \<Rightarrow> error + bstate" where
  "binance_trade B msg timestamp st =
     bnd (get_decimal B msg ''p'') (\<lambda>price.
     bnd (get_decimal B msg ''q'') (\<lambda>amount.
     bnd (getitem msg ''a'') (\<lambda>order_id.
     bnd (get_symbol B msg ''s'') (\<lambda>symbol.
     bnd (getitem msg ''m'') (\<lambda>m.
     bnd (getitem msg ''E'') (\<lambda>E.
       Inr (emit (TradeCb order_id symbol (if truthy m then SELL else BUY) amount price E timestamp)
              st)))))))"

definition binance_ticker :: "binance \<Rightarrow> jdict \<Rightarrow> rat \<Rightarrow> bstate \<Rightarrow> error + bstate" where
  "binance_ticker B msg timestamp st =
     bnd (get_symbol B msg ''s'') (\<lambda>pair.
     bnd (get_decimal B msg ''b'') (\<lambda>bid.
     bnd (get_decimal B msg ''a'') (\<lambda>ask.
       Inr (emit (TickerCb pair bid ask (map_of msg ''E'') timestamp) st))))"

definition binance_liquidations :: "binance \<Rightarrow> jdict \<Rightarrow> rat \<Rightarrow> bstate \<Rightarrow> error + bstate" where
  "binance_liquidations B msg timestamp st =
     bnd (bnd (getitem msg ''o'') as_dict) (\<lambda>ord.
     bnd (get_symbol B ord ''s'') (\<lambda>pair.
     bnd (getitem ord ''S'') (\<lambda>sd.
     bnd (get_decimal B ord ''q'') (\<lambda>leaves_qty.
     bnd (get_decimal B ord ''p'') (\<lambda>price.
     bnd (getitem msg ''E'') (\<lambda>E.
       Inr (emit (LiquidationCb pair sd leaves_qty price E timestamp) st)))))))"

definition binance_funding :: "binance \<Rightarrow> jdict \<Rightarrow> rat \<Rightarrow> bstate \<Rightarrow> error + bstate" where
  "binance_funding B msg timestamp st =
     bnd (get_symbol B msg ''s'') (\<lambda>symbol.
     bnd (getitem msg ''E'') (\<lambda>E.
     bnd (getitem msg ''p'') (\<lambda>mark_price.
     bnd (getitem msg ''r'') (\<lambda>rate.
     bnd (getitem msg ''T'') (\<lambda>T.
       Inr (emit (FundingCb symbol E mark_price rate T timestamp) st))))))"

subsection \<open>Dispatch\<close>

text \<open>\<^verbatim>\<open>s.split(sep, 1)\<close> unpacked into two names: \<open>None\<close> when \<open>sep\<close> does not occur.\<close>

fun split_once :: "char \<Rightarrow> string \<Rightarrow> (string \<times> string) option" where
  "split_once sep [] = None"
| "split_once sep (c # cs) =
     (if c = sep then Some ([], cs)
      else (case split_once sep cs of None \<Rightarrow> None | Some (a, b) \<Rightarrow> Some (c # a, b)))"

text \<open>\<^verbatim>\<open>str.upper\<close> and \<^verbatim>\<open>str.lower\<close> on the ASCII letters of an instrument name.\<close>

definition swap_case :: "string \<Rightarrow> string \<Rightarrow> char \<Rightarrow> char" where
  "swap_case from to c = (case map_of (zip from to) c of None \<Rightarrow> c | Some d \<Rightarrow> d)"

definition upper_char :: "char \<Rightarrow> char" where
  "upper_char = swap_case ''abcdefghijklmnopqrstuvwxyz'' ''ABCDEFGHIJKLMNOPQRSTUVWXYZ''"

definition lower_char :: "char \<Rightarrow> char" where
  "lower_char = swap_case ''ABCDEFGHIJKLMNOPQRSTUVWXYZ'' ''abcdefghijklmnopqrstuvwxyz''"

fun py_substr :: "string \<Rightarrow> string \<Rightarrow> bool" where
  "py_substr k [] = (k = [])"
| "py_substr k (c # cs) = (take (length k) (c # cs) = k \<or> py_substr k cs)"

text \<open>\<^verbatim>\<open>k in v\<close> for a string \<open>k\<close>: key of a dict, element of a list, substring of a string;
  TypeError on anything else.\<close>

definition py_in :: "string \<Rightarrow> jval \<Rightarrow> error + bool" where
  "py_in k v =
     (case v of
        JObj d \<Rightarrow> Inr (map_of d k \<noteq> None)
      | JArr xs \<Rightarrow> Inr (JStr k \<in> set xs)
      | JStr s \<Rightarrow> Inr (py_substr k s)
      | _ \<Rightarrow> Inl TypeError)"

definition unexpected :: "jval \<Rightarrow> bstate \<Rightarrow> bstate" where
  "unexpected msg st = st\<lparr>warnings := warnings st @ [LogWarning ''Unexpected message received'' (Some msg)]\<rparr>"

text \<open>\<^verbatim>\<open>message_handler\<close>, from the decoded frame on.\<close>

definition binance_message_handler :: "binance \<Rightarrow> jval \<Rightarrow> rat \<Rightarrow> bstate \<Rightarrow> error + bstate" where
  "binance_message_handler B frame timestamp st =
     bnd (as_dict frame) (\<lambda>outer.
     bnd (getitem outer ''stream'') (\<lambda>sv.
     (case sv of
        JStr stream \<Rightarrow>
          (case split_once CHR ''@'' stream of
             None \<Rightarrow> Inl ValueError
           | Some (p, _) \<Rightarrow>
               bnd (getitem outer ''data'') (\<lambda>msg.
               (let pair = map upper_char p in
                bnd (py_in ''e'' msg) (\<lambda>has_e.
                  if has_e then
                    bnd (as_dict msg) (\<lambda>m.
                    bnd (getitem m ''e'') (\<lambda>e.
                      if e = JStr ''depthUpdate'' then binance_book B m pair timestamp st
                      else if e = JStr ''aggTrade'' then binance_trade B m timestamp st
                      else if e = JStr ''forceOrder'' then binance_liquidations B m timestamp st
                      else if e = JStr ''markPriceUpdate'' then binance_funding B m timestamp st
                      else Inr (unexpected msg st)))
                  else
                    bnd (py_in ''A'' msg) (\<lambda>has_A.
                      if has_A then bnd (as_dict msg) (\<lambda>m. binance_ticker B m timestamp st)
                      else Inr (unexpected msg st))))))
      | _ \<Rightarrow> Inl AttributeError)))"

subsection \<open>Connection addresses\<close>

text \<open>
  \<^verbatim>\<open>_address\<close> returns \<^verbatim>\<open>None\<close>, one address, or a dict of addresses keyed by the last stream
  of each. A Python dict keeps insertion order and an assignment to an existing key
  replaces its value in place, which is \<open>AList.update\<close>.
\<close>

datatype address = NoAddress | Single string | Sharded "(string \<times> string) list"

record addr_loop =
  ret :: "(string \<times> string) list"
  counter :: nat
  addr :: string
  stream :: string

definition address_base :: "binance \<Rightarrow> string" where
  "address_base B = ws_endpoint B @ ''/stream?streams=''"

definition stream_name :: "string \<Rightarrow> string \<Rightarrow> string" where
  "stream_name chan pair = map lower_char pair @ ''@'' @ chan @ ''/''"

text \<open>
  The body of the inner loop once \<^verbatim>\<open>stream\<close> is built: the stream is appended to the address
  and counted; the 200th stream closes the address, which is stored without its last
  character under the stream as key, and a new address is begun.
\<close>

definition address_push :: "string \<Rightarrow> string \<Rightarrow> addr_loop \<Rightarrow> addr_loop" where
  "address_push base strm s =
     (let a = addr s @ strm; c = counter s + 1 in
      if c = 200
      then \<lparr>ret = AList.update strm (butlast a) (ret s), counter = 0, addr = base, stream = strm\<rparr>
      else \<lparr>ret = ret s, counter = c, addr = a, stream = strm\<rparr>)"

definition address_step :: "string \<Rightarrow> string \<Rightarrow> string \<Rightarrow> addr_loop \<Rightarrow> addr_loop" where
  "address_step base chan pair s = address_push base (stream_name chan pair) s"

text \<open>
  What the two loops iterate over: the configured channels with the configured symbols, or,
  when a subscription is given, its keys with their own lists.
\<close>

definition address_plan :: "binance \<Rightarrow> (string \<times> string list) list" where
  "address_plan B =
     (if subscription B = [] then map (\<lambda>chan. (chan, symbols B)) (channels B)
      else subscription B)"

text \<open>The outer loop body: the channel \<^verbatim>\<open>OPEN_INTEREST\<close> is skipped with all its pairs.\<close>

definition address_chan :: "binance \<Rightarrow> string \<times> string list \<Rightarrow> addr_loop \<Rightarrow> addr_loop" where
  "address_chan B cp s =
     (case cp of (chan, pairs) \<Rightarrow>
        if chan = OPEN_INTEREST B then s
        else fold (address_step (address_base B) chan) pairs s)"

text \<open>The lines after the loops.\<close>

definition address_finish :: "string \<Rightarrow> addr_loop \<Rightarrow> address" where
  "address_finish base s =
     (if ret s = [] then (if addr s = base then NoAddress else Single (butlast (addr s)))
      else if counter s > 0 then Sharded (AList.update (stream s) (butlast (addr s)) (ret s))
      else Sharded (ret s))"

definition address_init :: "string \<Rightarrow> addr_loop" where
  "address_init base = \<lparr>ret = [], counter = 0, addr = base, stream = []\<rparr>"

definition binance_address :: "binance \<Rightarrow> address" where
  "binance_address B =
     address_finish (address_base B)
       (fold (address_chan B) (address_plan B) (address_init (address_base B)))"

subsection \<open>Sharding as the specification words it\<close>

text \<open>
  The specification of the sharder, independent of the code: entries are appended greedily
  to the current shard; when the shard reaches the capacity it is sealed and a new shard is
  opened. The state is the list of sealed shards and the current one; the result is the
  sealed shards followed by the current one if it holds anything.
\<close>

definition seal_step :: "nat \<Rightarrow> 'a \<Rightarrow> 'a list list \<times> 'a list \<Rightarrow> 'a list list \<times> 'a list" where
  "seal_step cap x sc =
     (case sc of (sealed, cur) \<Rightarrow>
        if length cur + 1 = cap then (sealed @ [cur @ [x]], []) else (sealed, cur @ [x]))"

definition close_shards :: "'a list list \<times> 'a list \<Rightarrow> 'a list list" where
  "close_shards sc = (case sc of (sealed, cur) \<Rightarrow> if cur = [] then sealed else sealed @ [cur])"

definition shard :: "nat \<Rightarrow> 'a list \<Rightarrow> 'a list list" where
  "shard cap entries = close_shards (fold (seal_step cap) entries ([], []))"

text \<open>
  The subscription pairs of an instance, the streams of those that are not on the channel
  \<^verbatim>\<open>OPEN_INTEREST\<close>, the address that lists the streams of one shard, and the addresses an
  \<open>address\<close> value stands for.
\<close>

definition subscribed_pairs :: "binance \<Rightarrow> (string \<times> string) list" where
  "subscribed_pairs B = concat (map (\<lambda>(chan, pairs). map (Pair chan) pairs) (address_plan B))"

definition address_streams :: "binance \<Rightarrow> string list" where
  "address_streams B =
     concat (map (\<lambda>(chan, pairs). if chan = OPEN_INTEREST B then []
                                     else map (stream_name chan) pairs) (address_plan B))"

definition shard_address :: "string \<Rightarrow> string list \<Rightarrow> string" where
  "shard_address base sh = butlast (base @ concat sh)"

definition targets :: "address \<Rightarrow> string list" where
  "targets a = (case a of NoAddress \<Rightarrow> [] | Single x \<Rightarrow> [x] | Sharded d \<Rightarrow> map snd d)"

section \<open>PoloniexFutures\<close>

text \<open>
  \<^verbatim>\<open>OrderBook\<close> is declared in cryptofeed.types, outside the two modules. The adapter uses its
  two sides and its attribute \<^verbatim>\<open>sequence_number\<close>, which it only reads; a book as built by
  \<^verbatim>\<open>OrderBook(self.id, symbol, max_depth=...)\<close> is empty and has no sequence number.
\<close>

record order_book =
  ob_book :: l2
  sequence_number :: "int option"

definition new_order_book :: order_book where
  "new_order_book = \<lparr>ob_book = empty_l2, sequence_number = None\<rparr>"

text \<open>
  A call of \<^verbatim>\<open>book_callback\<close>: the book handed over, the receipt timestamp (\<open>None\<close> stands for
  \<^verbatim>\<open>time.time()\<close>), and the keywords \<^verbatim>\<open>timestamp\<close>, \<^verbatim>\<open>delta\<close>, \<^verbatim>\<open>raw\<close> and \<^verbatim>\<open>sequence_number\<close>.
  A snapshot call has no delta.
\<close>

record book_call =
  cb_book :: order_book
  cb_receipt :: "rat option"
  cb_timestamp :: "jval option"
  cb_delta :: "delta option"
  cb_raw :: "jdict option"
  cb_sequence_number :: int

datatype pevent =
    TradeEv jval string trade_side rat rat jval jdict rat
  | BookEv book_call

record pstate =
  p_l2_book :: "string \<rightharpoonup> order_book"
  seq_no :: "string \<rightharpoonup> int"
  p_events :: "pevent list"
  p_log :: "log_entry list"
  p_requests :: "string list"

text \<open>
  The immutable part of a \<^verbatim>\<open>PoloniexFutures\<close> instance and what it inherits or calls from
  outside the two modules: the symbol table, the \<open>Decimal\<close> constructor, the REST read of
  the \<open>l2book\<close> route for a symbol (answering the \<open>n\<close>-th request), and what
  \<^verbatim>\<open>book_callback\<close> leaves in the book object it is handed.
\<close>

record poloniex =
  exchange_symbol_to_std_symbol :: "string \<Rightarrow> string option"
  p_Decimal :: "jval \<Rightarrow> rat option"
  http_read :: "nat \<Rightarrow> string \<Rightarrow> jval option"
  book_callback :: "book_call \<Rightarrow> order_book"

definition p_decimal :: "poloniex \<Rightarrow> jval \<Rightarrow> error + rat" where
  "p_decimal P v = (case p_Decimal P v of None \<Rightarrow> Inl InvalidOperation | Some r \<Rightarrow> Inr r)"

definition p_std_symbol :: "poloniex \<Rightarrow> string \<Rightarrow> error + string" where
  "p_std_symbol P s =
     (case exchange_symbol_to_std_symbol P s of None \<Rightarrow> Inl (UnknownSymbol s) | Some p \<Rightarrow> Inr p)"

text \<open>
  \<^verbatim>\<open>__reset\<close>, called by \<^verbatim>\<open>subscribe\<close> as \<^verbatim>\<open>self.__reset()\<close>. Inside the class body Python
  stores and looks up the name as \<^verbatim>\<open>_PoloniexFutures__reset\<close>; the instance has no attribute
  \<^verbatim>\<open>_reset\<close>.
\<close>

definition poloniex_reset :: "pstate \<Rightarrow> pstate" where
  "poloniex_reset st = st\<lparr>p_l2_book := Map.empty, seq_no := Map.empty\<rparr>"

definition p_emit :: "pevent \<Rightarrow> pstate \<Rightarrow> pstate" where
  "p_emit ev st = st\<lparr>p_events := p_events st @ [ev]\<rparr>"

subsection \<open>Trades\<close>

definition poloniex_trade :: "poloniex \<Rightarrow> jdict \<Rightarrow> rat \<Rightarrow> pstate \<Rightarrow> error + pstate" where
  "poloniex_trade P msg timestamp st =
     bnd (bnd (getitem msg ''data'') as_dict) (\<lambda>data.
     bnd (bnd (getitem data ''price'') (p_decimal P)) (\<lambda>price.
     bnd (bnd (getitem data ''size'') (p_decimal P)) (\<lambda>amount.
     bnd (getitem data ''ts'') (\<lambda>ts.
     bnd (getitem data ''tradeId'') (\<lambda>trade_id.
     bnd (bnd (bnd (getitem data ''symbol'') as_str) (p_std_symbol P)) (\<lambda>symbol.
     bnd (getitem data ''side'') (\<lambda>sd.
       Inr (p_emit (TradeEv trade_id symbol (if sd = JStr ''sell'' then SELL else BUY)
                      amount price ts msg timestamp) st))))))))"

subsection \<open>Snapshot\<close>

text \<open>One \<^verbatim>\<open>price, amount\<close> entry of a dict comprehension: exactly two elements.\<close>

definition p_price_amount :: "poloniex \<Rightarrow> jval \<Rightarrow> error + (rat \<times> rat)" where
  "p_price_amount P entry =
     bnd (as_list entry) (\<lambda>xs.
       (case xs of
          [p, a] \<Rightarrow> bnd (p_decimal P p) (\<lambda>price. bnd (p_decimal P a) (\<lambda>amount. Inr (price, amount)))
        | _ \<Rightarrow> Inl ValueError))"

fun p_levels :: "poloniex \<Rightarrow> jval list \<Rightarrow> levels \<Rightarrow> error + levels" where
  "p_levels P [] m = Inr m"
| "p_levels P (entry # rest) m =
     bnd (p_price_amount P entry) (\<lambda>(price, amount). p_levels P rest (m(price \<mapsto> amount)))"

definition p_side_levels :: "poloniex \<Rightarrow> jdict \<Rightarrow> string \<Rightarrow> error + levels" where
  "p_side_levels P data s =
     bnd (getitem data s) (\<lambda>v. bnd (as_list v) (\<lambda>xs. p_levels P xs Map.empty))"

definition snapshot_call :: "order_book \<Rightarrow> jdict \<Rightarrow> int \<Rightarrow> book_call" where
  "snapshot_call bk data sq =
     \<lparr>cb_book = bk, cb_receipt = None, cb_timestamp = None, cb_delta = None,
      cb_raw = Some data, cb_sequence_number = sq\<rparr>"

text \<open>
  \<^verbatim>\<open>_snapshot\<close>: the book object is stored, filled, and handed to \<^verbatim>\<open>book_callback\<close> with the
  snapshot's sequence number and without a delta.
\<close>

definition poloniex_snapshot :: "poloniex \<Rightarrow> string \<Rightarrow> pstate \<Rightarrow> error + pstate" where
  "poloniex_snapshot P exchange_symbol st =
     (case http_read P (length (p_requests st)) exchange_symbol of
        None \<Rightarrow> Inl (FetchFailed exchange_symbol)
      | Some body \<Rightarrow>
          bnd (bnd (as_dict body) (\<lambda>res. getitem res ''data'')) (\<lambda>dv.
          bnd (p_std_symbol P exchange_symbol) (\<lambda>symbol.
          bnd (as_dict dv) (\<lambda>data.
          bnd (get_int data ''sequence'') (\<lambda>sq.
          bnd (p_side_levels P data ''bids'') (\<lambda>bs.
          bnd (p_side_levels P data ''asks'') (\<lambda>as.
            (let bk = new_order_book\<lparr>ob_book := l2_of bs as\<rparr>;
                 call = snapshot_call bk data sq
             in Inr (st\<lparr>p_requests := p_requests st @ [exchange_symbol],
                        seq_no := (seq_no st)(symbol \<mapsto> sq),
                        p_l2_book := (p_l2_book st)(symbol \<mapsto> book_callback P call),
                        p_events := p_events st @ [BookEv call]\<rparr>)))))))))"

subsection \<open>Book updates\<close>

definition p_book_of :: "pstate \<Rightarrow> string \<Rightarrow> error + order_book" where
  "p_book_of st symbol = (case p_l2_book st symbol of None \<Rightarrow> Inl (KeyError symbol) | Some bk \<Rightarrow> Inr bk)"

definition p_last_seq :: "pstate \<Rightarrow> string \<Rightarrow> error + int" where
  "p_last_seq st symbol = (case seq_no st symbol of None \<Rightarrow> Inl (KeyError symbol) | Some n \<Rightarrow> Inr n)"

text \<open>
  \<^verbatim>\<open>_check_update_id\<close>: returns \<open>skip_update\<close>. Its argument is \<^verbatim>\<open>msg['data']\<close>, which is only
  looked into when the book has a sequence number. The last branch begins with the call
  \<^verbatim>\<open>self._reset()\<close>: the attribute lookup fails (only \<^verbatim>\<open>__reset\<close> is defined), so the branch
  raises \<open>AttributeError\<close> before anything is reset and before the warning
  \<^verbatim>\<open>Missing book update detected, resetting book\<close> is logged.
\<close>

definition poloniex_check_update_id ::
    "poloniex \<Rightarrow> string \<Rightarrow> jval \<Rightarrow> pstate \<Rightarrow> error + (bool \<times> pstate)" where
  "poloniex_check_update_id P symbol msg st =
     bnd (p_book_of st symbol) (\<lambda>bk.
       if sequence_number bk = None then Inr (True, st)
       else
         bnd (bnd (as_dict msg) (\<lambda>d. get_int d ''sequence'')) (\<lambda>sq.
         bnd (p_last_seq st symbol) (\<lambda>l.
           if sq \<le> l then Inr (True, st)
           else if sq = l + 1 then Inr (False, st\<lparr>seq_no := (seq_no st)(symbol \<mapsto> sq)\<rparr>)
           else Inl AttributeError)))"

text \<open>\<^verbatim>\<open>s.split(sep)\<close>: AttributeError when \<open>s\<close> is not a string.\<close>

definition str_method :: "jval \<Rightarrow> error + string" where
  "str_method v = (case v of JStr s \<Rightarrow> Inr s | _ \<Rightarrow> Inl AttributeError)"

fun split_on :: "char \<Rightarrow> string \<Rightarrow> string list" where
  "split_on sep [] = [[]]"
| "split_on sep (c # cs) =
     (if c = sep then [] # split_on sep cs
      else (case split_on sep cs of [] \<Rightarrow> [[c]] | w # ws \<Rightarrow> (c # w) # ws))"

text \<open>
  The level change of \<^verbatim>\<open>_book\<close> on the stored book object: a zero amount deletes the level if
  it is there and only then records it in the delta; any other amount stores the level and
  records it.
\<close>

definition poloniex_apply_change ::
    "side \<Rightarrow> rat \<Rightarrow> rat \<Rightarrow> order_book \<times> delta \<Rightarrow> order_book \<times> delta" where
  "poloniex_apply_change sd price amount acc =
     (case acc of (bk, dl) \<Rightarrow>
        if amount = 0 then
          (if ob_book bk sd price \<noteq> None then
             (bk\<lparr>ob_book := (ob_book bk)(sd := (ob_book bk sd)(price := None))\<rparr>,
              dl(sd := dl sd @ [(price, amount)]))
           else (bk, dl))
        else
          (bk\<lparr>ob_book := (ob_book bk)(sd := (ob_book bk sd)(price \<mapsto> amount))\<rparr>,
           dl(sd := dl sd @ [(price, amount)])))"

definition update_call :: "order_book \<Rightarrow> rat \<Rightarrow> jval \<Rightarrow> delta \<Rightarrow> int \<Rightarrow> book_call" where
  "update_call bk timestamp ts dl sq =
     \<lparr>cb_book = bk, cb_receipt = Some timestamp, cb_timestamp = Some ts, cb_delta = Some dl,
      cb_raw = None, cb_sequence_number = sq\<rparr>"

definition poloniex_book :: "poloniex \<Rightarrow> jdict \<Rightarrow> rat \<Rightarrow> pstate \<Rightarrow> error + pstate" where
  "poloniex_book P msg timestamp st =
     bnd (bnd (getitem msg ''topic'') str_method) (\<lambda>topic.
     (let exchange_symbol = last (split_on CHR '':'' topic) in
      bnd (p_std_symbol P exchange_symbol) (\<lambda>symbol.
      bnd (if p_l2_book st symbol = None then poloniex_snapshot P exchange_symbol st else Inr st)
        (\<lambda>st1.
      bnd (getitem msg ''data'') (\<lambda>dv.
      bnd (poloniex_check_update_id P symbol dv st1) (\<lambda>(skip_update, st2).
        if skip_update then Inr st2
        else
          bnd (as_dict dv) (\<lambda>data.
          bnd (getitem data ''timestamp'') (\<lambda>ts.
          bnd (bnd (getitem data ''change'') str_method) (\<lambda>change.
            (case split_on CHR '','' change of
               [p, s, a] \<Rightarrow>
                 bnd (p_decimal P (JStr p)) (\<lambda>price.
                 bnd (p_decimal P (JStr a)) (\<lambda>amount.
                 bnd (p_book_of st2 symbol) (\<lambda>bk.
                   (case poloniex_apply_change (if s = ''buy'' then BID else ASK) price amount
                           (bk, empty_delta) of
                      (bk', dl) \<Rightarrow>
                        bnd (get_int data ''sequence'') (\<lambda>sq.
                          (let call = update_call bk' timestamp ts dl sq in
                           Inr (st2\<lparr>p_l2_book := (p_l2_book st2)(symbol \<mapsto> book_callback P call),
                                    p_events := p_events st2 @ [BookEv call]\<rparr>)))))))
             | _ \<Rightarrow> Inl ValueError))))))))))"

subsection \<open>Dispatch\<close>

text \<open>\<^verbatim>\<open>msg.get(k)\<close>: \<^verbatim>\<open>None\<close> for a missing key.\<close>

definition dict_get :: "jdict \<Rightarrow> string \<Rightarrow> jval" where
  "dict_get d k = (case map_of d k of None \<Rightarrow> JNull | Some v \<Rightarrow> v)"

definition poloniex_message_handler ::
    "poloniex \<Rightarrow> jval \<Rightarrow> rat \<Rightarrow> pstate \<Rightarrow> error + pstate" where
  "poloniex_message_handler P frame timestamp st =
     (case frame of
        JObj msg \<Rightarrow>
          (let event = dict_get msg ''type'' in
           if event = JStr ''error''
           then Inr (st\<lparr>p_log := p_log st @ [LogError ''Error from exchange'' (Some frame)]\<rparr>)
           else if event = JStr ''welcome'' then Inr st
           else if event = JStr ''ack'' then Inr st
           else if event = JStr ''subscribe'' then Inr st
           else
             (let channel = dict_get msg ''subject'' in
              if channel = JStr ''match'' then poloniex_trade P msg timestamp st
              else if channel = JStr ''level2'' then poloniex_book P msg timestamp st
              else Inr (st\<lparr>p_log := p_log st @ [LogWarning ''Invalid message type'' (Some frame)]\<rparr>)))
      | _ \<Rightarrow> Inl AttributeError)"

section \<open>Sample instances\<close>

text \<open>A depth update as in the docstring of \<^verbatim>\<open>_book\<close>, and a state synced at identifier 150.\<close>

definition depth_update :: "int \<Rightarrow> int \<Rightarrow> jval list \<Rightarrow> jval list \<Rightarrow> jdict" where
  "depth_update U u bs as =
     [(''e'', JStr ''depthUpdate''), (''E'', JInt 123456789), (''s'', JStr ''BNBBTC''),
      (''U'', JInt U), (''u'', JInt u), (''b'', JArr bs), (''a'', JArr as)]"

definition synced_150 :: bstate where
  "synced_150 =
     \<lparr>forced = Map.empty, l2_book = [''BNB-BTC'' \<mapsto> empty_l2],
      last_update_id = [''BNB-BTC'' \<mapsto> 150], open_interest = Map.empty,
      events = [], warnings = [], requests = []\<rparr>"

text \<open>
  Instances for the examples: the \<open>Decimal\<close> constructor on the integers, the decimals and
  the numeric strings that occur in them, a two-symbol table, and a REST endpoint that
  answers every depth request with the snapshot of the spec's end-to-end scenario.
\<close>

definition sample_decimal :: "jval \<Rightarrow> rat option" where
  "sample_decimal v =
     (case v of
        JInt n \<Rightarrow> Some (of_int n)
      | JDec r \<Rightarrow> Some r
      | JStr s \<Rightarrow>
          (if s = ''0'' then Some 0
           else if s = ''0.001'' then Some (1 / 1000)
           else if s = ''100'' then Some 100
           else if s = ''55.29'' then Some (5529 / 100)
           else if s = ''19155'' then Some 19155
           else None)
      | _ \<Rightarrow> None)"

definition depth_snapshot :: jdict where
  "depth_snapshot =
     [(''lastUpdateId'', JInt 160),
      (''bids'', JArr [JArr [JInt 50, JInt 10]]),
      (''asks'', JArr [JArr [JInt 51, JInt 5]])]"

definition sample_binance :: binance where
  "sample_binance =
     \<lparr>ws_endpoint = ''wss://stream.binance.com:9443'',
      rest_endpoint = ''https://www.binance.com/api/v1'',
      max_depth = None,
      channels = [''aggTrade'', ''depth@100ms''],
      symbols = [''BNBBTC'', ''BTCUSDT''],
      subscription = [],
      OPEN_INTEREST = ''open_interest'',
      symbol_exchange_to_std =
        (\<lambda>s. if s = ''BNBBTC'' then Some ''BNB-BTC''
             else if s = ''BTCUSDT'' then Some ''BTC-USDT'' else None),
      Decimal = sample_decimal,
      conn_get = (\<lambda>n url. Some (JObj depth_snapshot))\<rparr>"

definition unsynced :: bstate where
  "unsynced =
     \<lparr>forced = Map.empty, l2_book = Map.empty, last_update_id = Map.empty,
      open_interest = Map.empty, events = [], warnings = [], requests = []\<rparr>"

text \<open>The aggregate trade of the docstring of \<^verbatim>\<open>_trade\<close>.\<close>

definition agg_trade :: jdict where
  "agg_trade =
     [(''e'', JStr ''aggTrade''), (''E'', JInt 123456789), (''s'', JStr ''BNBBTC''),
      (''a'', JInt 12345), (''p'', JStr ''0.001''), (''q'', JStr ''100''), (''f'', JInt 100),
      (''l'', JInt 105), (''T'', JInt 123456785), (''m'', JBool True), (''M'', JBool True)]"

text \<open>PoloniexFutures: the messages of the docstrings, a book synced at sequence 100, and
  an instance whose \<^verbatim>\<open>book_callback\<close> stores the sequence number on the book.\<close>

definition l2_snapshot :: jdict where
  "l2_snapshot =
     [(''symbol'', JStr ''EGLDUSDTPERP''), (''sequence'', JInt 160),
      (''asks'', JArr [JArr [JInt 51, JInt 5]]),
      (''bids'', JArr [JArr [JInt 50, JInt 10]]),
      (''ts'', JInt 1666546818854988483)]"

definition p_unsynced :: pstate where
  "p_unsynced = \<lparr>p_l2_book = Map.empty, seq_no = Map.empty, p_events = [], p_log = [],
                  p_requests = []\<rparr>"

definition sample_poloniex :: poloniex where
  "sample_poloniex =
     \<lparr>exchange_symbol_to_std_symbol =
        (\<lambda>s. if s = ''EGLDUSDTPERP'' then Some ''EGLD-USDT-PERP''
             else if s = ''BTCUSDTPERP'' then Some ''BTC-USDT-PERP'' else None),
      p_Decimal = sample_decimal,
      http_read = (\<lambda>n s. Some (JObj [(''code'', JStr ''200000''), (''data'', JObj l2_snapshot)])),
      book_callback = (\<lambda>c. (cb_book c)\<lparr>sequence_number := Some (cb_sequence_number c)\<rparr>)\<rparr>"

definition level2_data :: "int \<Rightarrow> string \<Rightarrow> jdict" where
  "level2_data sq change =
     [(''sequence'', JInt sq), (''change'', JStr change), (''timestamp'', JInt 1666544751415)]"

definition level2_update :: "int \<Rightarrow> string \<Rightarrow> jdict" where
  "level2_update sq change =
     [(''data'', JObj (level2_data sq change)),
      (''subject'', JStr ''level2''),
      (''topic'', JStr ''/contractMarket/level2:EGLDUSDTPERP''),
      (''type'', JStr ''message'')]"

definition match_data :: "string \<Rightarrow> jdict" where
  "match_data sd =
     [(''makerUserId'', JStr ''14262470''), (''symbol'', JStr ''BTCUSDTPERP''),
      (''sequence'', JInt 659294), (''side'', JStr sd), (''size'', JInt 1),
      (''price'', JDec 19155), (''takerOrderId'', JStr ''6355476b9a81490007ac4c4a''),
      (''makerOrderId'', JStr ''635547325562920007e49fc8''),
      (''takerUserId'', JStr ''14330687''),
      (''tradeId'', JStr ''6355476b244b7900011a4f5f''),
      (''ts'', JInt 1666533227264166601)]"

definition match_trade :: "string \<Rightarrow> jdict" where
  "match_trade sd =
     [(''data'', JObj (match_data sd)),
      (''subject'', JStr ''match''),
      (''topic'', JStr ''/contractMarket/execution:BTCUSDTPERP''),
      (''type'', JStr ''message'')]"

definition p_synced_100 :: pstate where
  "p_synced_100 =
     \<lparr>p_l2_book = [''EGLD-USDT-PERP'' \<mapsto> \<lparr>ob_book = empty_l2, sequence_number = Some 100\<rparr>],
      seq_no = [''EGLD-USDT-PERP'' \<mapsto> 100], p_events = [], p_log = [], p_requests = []\<rparr>"

text \<open>
  Frames that no branch of the two dispatchers handles: an event type without handler and a
  reply to a request, each in the combined-stream envelope; the same event under a stream
  name without \<^verbatim>\<open>@\<close>; a PoloniexFutures \<^verbatim>\<open>pong\<close>.
\<close>

definition kline_data :: jdict where
  "kline_data = [(''e'', JStr ''kline''), (''E'', JInt 123456789), (''s'', JStr ''BNBBTC'')]"

definition kline_outer :: jdict where
  "kline_outer = [(''stream'', JStr ''bnbbtc@kline_1m''), (''data'', JObj kline_data)]"

definition reply_data :: jdict where
  "reply_data = [(''result'', JNull), (''id'', JInt 1)]"

definition reply_outer :: jdict where
  "reply_outer = [(''stream'', JStr ''bnbbtc@depth''), (''data'', JObj reply_data)]"

definition bare_outer :: jdict where
  "bare_outer = [(''stream'', JStr ''bnbbtc''), (''data'', JObj kline_data)]"

definition pong_msg :: jdict where
  "pong_msg = [(''id'', JStr ''1545910590801''), (''type'', JStr ''pong'')]"

text \<open>A feed with two synced books, both past their first update.\<close>

definition two_books :: bstate where
  "two_books =
     \<lparr>forced = [''BNB-BTC'' \<mapsto> True, ''BTC-USDT'' \<mapsto> True],
      l2_book = [''BNB-BTC'' \<mapsto> l2_of [50 \<mapsto> 10] [51 \<mapsto> 5],
                 ''BTC-USDT'' \<mapsto> l2_of [19000 \<mapsto> 1] [19001 \<mapsto> 2]],
      last_update_id = [''BNB-BTC'' \<mapsto> 150, ''BTC-USDT'' \<mapsto> 900],
      open_interest = Map.empty, events = [], warnings = [], requests = []\<rparr>"

text \<open>The state that \<^verbatim>\<open>_snapshot\<close> leaves when it bootstraps \<^verbatim>\<open>BNBBTC\<close> from \<open>depth_snapshot\<close>.\<close>

definition bootstrapped :: bstate where
  "bootstrapped =
     unsynced\<lparr>requests := [''https://www.binance.com/api/v1/depth?symbol=BNBBTC&limit=1000''],
              last_update_id := [''BNB-BTC'' \<mapsto> 160],
              l2_book := [''BNB-BTC'' \<mapsto> l2_of [50 \<mapsto> 10] [51 \<mapsto> 5]]\<rparr>"

definition shard_entry :: "string \<Rightarrow> string list \<Rightarrow> string \<times> string" where
  "shard_entry base sh = (last sh, shard_address base sh)"

text \<open>
  How a state of the loop of \<^verbatim>\<open>_address\<close> stands for sealed shards and a current shard: the
  dict holds one entry per sealed shard, in order; the counter and the address under
  construction are those of the current shard; \<^verbatim>\<open>stream\<close> is the last stream seen.
\<close>

definition address_inv :: "string \<Rightarrow> addr_loop \<Rightarrow> string list list \<times> string list \<Rightarrow> bool" where
  "address_inv base s sc =
     (case sc of (sealed, cur) \<Rightarrow>
        ret s = map (shard_entry base) sealed \<and> counter s = length cur \<and>
        addr s = base @ concat cur \<and> (cur \<noteq> [] \<longrightarrow> stream s = last cur))"

text \<open>An instance that subscribes one symbol on the channel \<^verbatim>\<open>OPEN_INTEREST\<close> only.\<close>

definition oi_only :: binance where
  "oi_only = sample_binance\<lparr>channels := [''open_interest''], symbols := [''BTCUSDT'']\<rparr>"

section \<open>Runs of updates in the synced state\<close>

text \<open>
  A run of the Binance check for one pair: updates whose identifiers satisfy \<open>U \<le> u\<close> (the
  first and the final update of the event) are checked one after the other, and the pair
  still has its last identifier after each of them (the check has not reset the feed).
\<close>

inductive binance_synced_run :: "string \<Rightarrow> bstate \<Rightarrow> bstate \<Rightarrow> bool" for pair :: string where
  b_run_refl: "binance_synced_run pair st st"
| b_run_step: "binance_synced_run pair st st1 \<Longrightarrow>
     map_of msg ''U'' = Some (JInt U) \<Longrightarrow> map_of msg ''u'' = Some (JInt u) \<Longrightarrow> U \<le> u \<Longrightarrow>
     binance_check_update_id pair msg st1 = Inr (r, st2) \<Longrightarrow>
     last_update_id st2 pair \<noteq> None \<Longrightarrow>
     binance_synced_run pair st st2"

text \<open>
  A run of the PoloniexFutures check for one symbol: each update finds the book with a
  sequence number and is a duplicate, a stale update or the successor (\<open>sq \<le> l + 1\<close>), so
  the last branch of the check is not taken.
\<close>

inductive poloniex_synced_run :: "poloniex \<Rightarrow> string \<Rightarrow> pstate \<Rightarrow> pstate \<Rightarrow> bool"
  for P :: poloniex and symbol :: string where
  p_run_refl: "poloniex_synced_run P symbol st st"
| p_run_step: "poloniex_synced_run P symbol st st1 \<Longrightarrow>
     p_l2_book st1 symbol = Some bk \<Longrightarrow> sequence_number bk \<noteq> None \<Longrightarrow>
     seq_no st1 symbol = Some l \<Longrightarrow>
     map_of data ''sequence'' = Some (JInt sq) \<Longrightarrow> sq \<le> l + 1 \<Longrightarrow>
     poloniex_check_update_id P symbol (JObj data) st1 = Inr (skip, st2) \<Longrightarrow>
     poloniex_synced_run P symbol st st2"

section \<open>Properties\<close>

lemma get_int_Some [simp]: "map_of d k = Some (JInt n) \<Longrightarrow> get_int d k = Inr n"
  by (simp add: get_int_def getitem_def bnd_def as_int_def)

lemma bnd_Inr [simp]: "bnd (Inr x) f = f x"
  by (simp add: bnd_def)

lemma bnd_Inl [simp]: "bnd (Inl e) f = Inl e"
  by (simp add: bnd_def)

lemma last_id_Some [simp]: "last_update_id st pair = Some l \<Longrightarrow> last_id st pair = Inr l"
  by (simp add: last_id_def)

lemma forced_touch_fields [simp]:
  "last_update_id (forced_touch pair st) = last_update_id st"
  "l2_book (forced_touch pair st) = l2_book st"
  "open_interest (forced_touch pair st) = open_interest st"
  "events (forced_touch pair st) = events st"
  "warnings (forced_touch pair st) = warnings st"
  "requests (forced_touch pair st) = requests st"
  by (simp_all add: forced_touch_def)

lemma forced_get_touch [simp]: "forced_get (forced_touch pair st) q = forced_get st q"
  by (simp add: forced_get_def forced_touch_def)

text \<open>
  C1 (window policy). In a synced state (\<open>last_update_id st pair = Some l\<close>) and for an
  update carrying the identifiers \<open>U\<close> and \<open>u\<close>, the check returns normally with the flag
  \<open>forced\<close> telling whether this is the first update after the snapshot. A first update is
  accepted exactly when \<open>U \<le> l + 1 \<le> u\<close>; a later one exactly when \<open>l + 1 = U\<close>; an accepted
  update leaves \<open>u\<close> as the last identifier; a first update with \<open>u \<le> l\<close> is skipped and the
  books, the identifiers, the flags read for every pair, the events and the warnings are what
  they were.
\<close>

theorem C1_window_policy:
  assumes "last_update_id st pair = Some l"
    and "map_of msg ''U'' = Some (JInt U)"
    and "map_of msg ''u'' = Some (JInt u)"
  shows "\<exists>skip st'.
           binance_check_update_id pair msg st = Inr ((skip, \<not> forced_get st pair), st') \<and>
           (\<not> forced_get st pair \<longrightarrow> (\<not> skip \<longleftrightarrow> U \<le> l + 1 \<and> l + 1 \<le> u)) \<and>
           (forced_get st pair \<longrightarrow> (\<not> skip \<longleftrightarrow> l + 1 = U)) \<and>
           (\<not> skip \<longrightarrow> last_update_id st' pair = Some u \<and> forced_get st' pair) \<and>
           (\<not> forced_get st pair \<and> u \<le> l \<longrightarrow>
              skip \<and> last_update_id st' = last_update_id st \<and> l2_book st' = l2_book st \<and>
              (\<forall>q. forced_get st' q = forced_get st q) \<and>
              events st' = events st \<and> warnings st' = warnings st)"
  using assms
  by (auto simp add: binance_check_update_id_def Let_def forced_get_def forced_touch_def)

lemma depth_update_U: "map_of (depth_update U u bs as) ''U'' = Some (JInt U)"
  by (simp add: depth_update_def)

lemma depth_update_u: "map_of (depth_update U u bs as) ''u'' = Some (JInt u)"
  by (simp add: depth_update_def)

lemma synced_150_last: "last_update_id synced_150 ''BNB-BTC'' = Some 150"
  by (simp add: synced_150_def)

lemma synced_150_first: "\<not> forced_get synced_150 ''BNB-BTC''"
  by (simp add: synced_150_def forced_get_def)

theorem C1_window_policy_witness:
  "(\<exists>st'. binance_check_update_id ''BNB-BTC'' (depth_update 148 155 [] []) synced_150
             = Inr ((False, True), st') \<and> last_update_id st' ''BNB-BTC'' = Some 155) \<and>
   (\<exists>st'. binance_check_update_id ''BNB-BTC'' (depth_update 140 150 [] []) synced_150
             = Inr ((True, True), st') \<and> last_update_id st' = last_update_id synced_150
             \<and> l2_book st' = l2_book synced_150)"
proof -
  have a: "\<exists>st'. binance_check_update_id ''BNB-BTC'' (depth_update 148 155 [] []) synced_150
             = Inr ((False, True), st') \<and> last_update_id st' ''BNB-BTC'' = Some 155"
    using C1_window_policy [where msg = "depth_update 148 155 [] []" and U = 148 and u = 155,
            OF synced_150_last depth_update_U depth_update_u] synced_150_first
    by auto
  have b: "\<exists>st'. binance_check_update_id ''BNB-BTC'' (depth_update 140 150 [] []) synced_150
             = Inr ((True, True), st') \<and> last_update_id st' = last_update_id synced_150
             \<and> l2_book st' = l2_book synced_150"
    using C1_window_policy [where msg = "depth_update 140 150 [] []" and U = 140 and u = 150,
            OF synced_150_last depth_update_U depth_update_u] synced_150_first
    by auto
  from a b show ?thesis by (rule conjI)
qed

subsection \<open>Snapshot depth\<close>

lemma fold_pick_max:
  "fold (\<lambda>d acc. if d > acc then d else acc) ds (m::int) = fold max ds m"
  by (induction ds arbitrary: m) (auto simp: max_def)

lemma snapshot_limit_small:
  assumes "m \<noteq> 0" "m \<notin> set valid_depths" "m < 5000"
  shows "snapshot_limit (Some m) = 5000"
  using assms by (simp add: snapshot_limit_def fold_pick_max valid_depths_def)

lemma snapshot_limit_large:
  assumes "5000 < m"
  shows "snapshot_limit (Some m) = m"
  using assms by (simp add: snapshot_limit_def fold_pick_max valid_depths_def)

lemma str_int_5000: "str_int 5000 = ''5000''"
  by (simp add: str_int_def str_nat.simps)



subsection \<open>Strict policy (PoloniexFutures)\<close>

lemma getitem_Some [simp]: "map_of d k = Some v \<Longrightarrow> getitem d k = Inr v"
  by (simp add: getitem_def)

lemma bnd_eq_Inr: "bnd m f = Inr y \<longleftrightarrow> (\<exists>x. m = Inr x \<and> f x = Inr y)"
  by (cases m) (simp_all add: bnd_def)

lemma p_book_of_Some [simp]: "p_l2_book st symbol = Some bk \<Longrightarrow> p_book_of st symbol = Inr bk"
  by (simp add: p_book_of_def)

lemma p_last_seq_Some [simp]: "seq_no st symbol = Some l \<Longrightarrow> p_last_seq st symbol = Inr l"
  by (simp add: p_last_seq_def)

lemma poloniex_check_synced:
  assumes "p_l2_book st symbol = Some bk" and "sequence_number bk \<noteq> None"
    and "seq_no st symbol = Some l" and "map_of data ''sequence'' = Some (JInt sq)"
  shows "poloniex_check_update_id P symbol (JObj data) st =
           (if sq \<le> l then Inr (True, st)
            else if sq = l + 1 then Inr (False, st\<lparr>seq_no := (seq_no st)(symbol \<mapsto> sq)\<rparr>)
            else Inl AttributeError)"
  using assms by (auto simp add: poloniex_check_update_id_def as_dict_def)

text \<open>
  C2 (strict policy). In a synced state (the book exists and has a sequence number, and
  \<open>seq_no\<close> holds \<open>l\<close>) the update is accepted exactly when \<open>sq = l + 1\<close>, and then the check
  returns the state with \<open>seq_no\<close> holding \<open>sq\<close> and nothing else changed. With \<open>sq \<le> l\<close> the
  check skips the update in the unchanged state and \<^verbatim>\<open>_book\<close> as a whole returns the very same
  state: the book is not mutated, no callback is made, nothing is logged. With
  \<open>sq > l + 1\<close> the update is not treated as a gap: the check, and \<^verbatim>\<open>_book\<close> with it, ends in
  \<open>AttributeError\<close> at the call \<^verbatim>\<open>self._reset()\<close>; neither the book nor \<open>seq_no\<close> is cleared and no
  warning is logged.
\<close>

theorem C2_strict_policy:
  assumes "p_l2_book st symbol = Some bk" and "sequence_number bk \<noteq> None"
    and "seq_no st symbol = Some l"
    and "map_of msg ''topic'' = Some (JStr topic)"
    and "exchange_symbol_to_std_symbol P (last (split_on CHR '':'' topic)) = Some symbol"
    and "map_of msg ''data'' = Some (JObj data)"
    and "map_of data ''sequence'' = Some (JInt sq)"
  shows "((\<exists>st'. poloniex_check_update_id P symbol (JObj data) st = Inr (False, st'))
            \<longleftrightarrow> sq = l + 1) \<and>
         (sq = l + 1 \<longrightarrow>
            poloniex_check_update_id P symbol (JObj data) st =
              Inr (False, st\<lparr>seq_no := (seq_no st)(symbol \<mapsto> sq)\<rparr>)) \<and>
         (sq \<le> l \<longrightarrow>
            poloniex_check_update_id P symbol (JObj data) st = Inr (True, st) \<and>
            poloniex_book P msg timestamp st = Inr st) \<and>
         (l + 1 < sq \<longrightarrow>
            poloniex_check_update_id P symbol (JObj data) st = Inl AttributeError \<and>
            poloniex_book P msg timestamp st = Inl AttributeError)"
  using assms
  by (auto simp add: poloniex_check_synced poloniex_book_def p_std_symbol_def str_method_def
        Let_def)

lemma p_synced_100_book:
  "p_l2_book p_synced_100 ''EGLD-USDT-PERP'' = Some \<lparr>ob_book = empty_l2, sequence_number = Some 100\<rparr>"
  by (simp add: p_synced_100_def)

lemma p_synced_100_seq: "seq_no p_synced_100 ''EGLD-USDT-PERP'' = Some 100"
  by (simp add: p_synced_100_def)

lemma level2_topic:
  "map_of (level2_update sq change) ''topic'' = Some (JStr ''/contractMarket/level2:EGLDUSDTPERP'')"
  by (simp add: level2_update_def)

lemma level2_symbol:
  "exchange_symbol_to_std_symbol sample_poloniex
     (last (split_on CHR '':'' ''/contractMarket/level2:EGLDUSDTPERP'')) = Some ''EGLD-USDT-PERP''"
  by (simp add: sample_poloniex_def)

lemma level2_data: "map_of (level2_update sq change) ''data'' = Some (JObj (level2_data sq change))"
  by (simp add: level2_update_def)

lemma level2_sequence: "map_of (level2_data sq change) ''sequence'' = Some (JInt sq)"
  by (simp add: level2_data_def)

theorem C2_strict_policy_witness:
  "poloniex_check_update_id sample_poloniex ''EGLD-USDT-PERP''
     (JObj (level2_data 101 ''55.29,sell,0'')) p_synced_100
     = Inr (False, p_synced_100\<lparr>seq_no := (seq_no p_synced_100)(''EGLD-USDT-PERP'' \<mapsto> 101)\<rparr>) \<and>
   poloniex_check_update_id sample_poloniex ''EGLD-USDT-PERP''
     (JObj (level2_data 100 ''55.29,sell,0'')) p_synced_100 = Inr (True, p_synced_100) \<and>
   poloniex_book sample_poloniex (level2_update 100 ''55.29,sell,0'') 0 p_synced_100
     = Inr p_synced_100 \<and>
   poloniex_check_update_id sample_poloniex ''EGLD-USDT-PERP''
     (JObj (level2_data 105 ''55.29,sell,0'')) p_synced_100 = Inl AttributeError \<and>
   poloniex_book sample_poloniex (level2_update 105 ''55.29,sell,0'') 0 p_synced_100
     = Inl AttributeError"
proof -
  have sn: "sequence_number \<lparr>ob_book = empty_l2, sequence_number = Some 100\<rparr> \<noteq> None"
    by simp
  note T = C2_strict_policy [OF p_synced_100_book sn p_synced_100_seq level2_topic level2_symbol
             level2_data level2_sequence]
  from T [of 101 "''55.29,sell,0''" 0]
  have a: "poloniex_check_update_id sample_poloniex ''EGLD-USDT-PERP''
     (JObj (level2_data 101 ''55.29,sell,0'')) p_synced_100
     = Inr (False, p_synced_100\<lparr>seq_no := (seq_no p_synced_100)(''EGLD-USDT-PERP'' \<mapsto> 101)\<rparr>)"
    by simp
  from T [of 100 "''55.29,sell,0''" 0]
  have b: "poloniex_check_update_id sample_poloniex ''EGLD-USDT-PERP''
     (JObj (level2_data 100 ''55.29,sell,0'')) p_synced_100 = Inr (True, p_synced_100) \<and>
   poloniex_book sample_poloniex (level2_update 100 ''55.29,sell,0'') 0 p_synced_100
     = Inr p_synced_100"
    by simp
  from T [of 105 "''55.29,sell,0''" 0]
  have c: "poloniex_check_update_id sample_poloniex ''EGLD-USDT-PERP''
     (JObj (level2_data 105 ''55.29,sell,0'')) p_synced_100 = Inl AttributeError \<and>
   poloniex_book sample_poloniex (level2_update 105 ''55.29,sell,0'') 0 p_synced_100
     = Inl AttributeError"
    by simp
  from a b c show ?thesis by simp
qed

subsection \<open>Sequence numbers never go back\<close>

lemma binance_check_cases:
  assumes "last_update_id st pair = Some l"
    and "map_of msg ''U'' = Some (JInt U)" and "map_of msg ''u'' = Some (JInt u)"
  shows "binance_check_update_id pair msg st =
     (if \<not> forced_get st pair then
        (if u \<le> l then Inr ((True, True), forced_touch pair st)
         else if U \<le> l + 1 then
           Inr ((False, True), (forced_touch pair st)\<lparr>last_update_id := (last_update_id st)(pair \<mapsto> u),
                                   forced := (forced (forced_touch pair st))(pair \<mapsto> True)\<rparr>)
         else Inr ((True, True), missing_update (forced_touch pair st)))
      else
        (if l + 1 = U then
           Inr ((False, False), (forced_touch pair st)\<lparr>last_update_id := (last_update_id st)(pair \<mapsto> u)\<rparr>)
         else Inr ((True, False), missing_update (forced_touch pair st))))"
  using assms by (auto simp add: binance_check_update_id_def Let_def)

lemma missing_update_last [simp]: "last_update_id (missing_update st) = Map.empty"
  by (simp add: missing_update_def binance_reset_def)

lemma binance_step_mono:
  assumes "last_update_id st pair = Some l"
    and "map_of msg ''U'' = Some (JInt U)" and "map_of msg ''u'' = Some (JInt u)" and "U \<le> u"
    and "binance_check_update_id pair msg st = Inr (r, st')"
    and "last_update_id st' pair = Some l'"
  shows "l \<le> l'"
  using assms by (auto simp add: binance_check_cases split: if_splits)

lemma binance_run_mono:
  assumes "binance_synced_run pair st st'" and "last_update_id st pair = Some l"
  shows "\<exists>l'. last_update_id st' pair = Some l' \<and> l \<le> l'"
  using assms
proof (induction rule: binance_synced_run.induct)
  case (b_run_refl st)
  then show ?case by simp
next
  case (b_run_step st st1 msg U u r st2)
  then obtain l1 where l1: "last_update_id st1 pair = Some l1" "l \<le> l1" by blast
  from b_run_step.hyps(6) obtain l2 where l2: "last_update_id st2 pair = Some l2" by blast
  from binance_step_mono [OF l1(1) b_run_step.hyps(2,3,4,5) l2] have "l1 \<le> l2" .
  with l1 l2 show ?case by simp
qed

lemma poloniex_run_mono:
  assumes "poloniex_synced_run P symbol st st'" and "seq_no st symbol = Some l"
  shows "\<exists>l'. seq_no st' symbol = Some l' \<and> l \<le> l'"
  using assms
proof (induction rule: poloniex_synced_run.induct)
  case (p_run_refl st)
  then show ?case by simp
next
  case (p_run_step st st1 bk l1 data sq skip st2)
  then have "l \<le> l1" by auto
  moreover from p_run_step.hyps(2-7)
  have "seq_no st2 symbol = Some l1 \<or> seq_no st2 symbol = Some (l1 + 1)"
    by (auto simp add: poloniex_check_synced split: if_splits)
  ultimately show ?case by auto
qed

text \<open>
  C7 (sequence monotonicity). An update that the Binance check accepts leaves \<open>u\<close> as the
  last identifier, and \<open>u \<ge> l + 1\<close>: for the first update after a snapshot this is the
  acceptance test itself, for a later one it uses that the event's final identifier is not
  below its first (\<open>U \<le> u\<close>). An update that the PoloniexFutures check accepts has
  \<open>sq = l + 1\<close> and leaves \<open>l + 1\<close>. Along every run of such checks in the synced state the
  last identifier of the pair (the sequence number of the symbol) never decreases. The
  check itself never compares \<open>U\<close> with \<open>u\<close>: without \<open>U \<le> u\<close> a later update with
  \<open>U = l + 1\<close> is accepted whatever \<open>u\<close> is.
\<close>

theorem C7_sequence_monotone:
  "(last_update_id st pair = Some l \<and> map_of msg ''U'' = Some (JInt U) \<and>
    map_of msg ''u'' = Some (JInt u) \<and> (f \<or> U \<le> u) \<and>
    binance_check_update_id pair msg st = Inr ((False, f), st')
      \<longrightarrow> last_update_id st' pair = Some u \<and> l + 1 \<le> u) \<and>
   (seq_no pst symbol = Some pl \<and> map_of data ''sequence'' = Some (JInt sq) \<and>
    poloniex_check_update_id P symbol (JObj data) pst = Inr (False, pst')
      \<longrightarrow> sq = pl + 1 \<and> seq_no pst' symbol = Some (pl + 1)) \<and>
   (last_update_id st pair = Some l \<and> binance_synced_run pair st st''
      \<longrightarrow> (\<exists>l'. last_update_id st'' pair = Some l' \<and> l \<le> l')) \<and>
   (seq_no pst symbol = Some pl \<and> poloniex_synced_run P symbol pst pst''
      \<longrightarrow> (\<exists>l'. seq_no pst'' symbol = Some l' \<and> pl \<le> l'))"
proof (intro conjI impI)
  assume a: "last_update_id st pair = Some l \<and> map_of msg ''U'' = Some (JInt U) \<and>
    map_of msg ''u'' = Some (JInt u) \<and> (f \<or> U \<le> u) \<and>
    binance_check_update_id pair msg st = Inr ((False, f), st')"
  then show "last_update_id st' pair = Some u" "l + 1 \<le> u"
    by (auto simp add: binance_check_cases split: if_splits)
next
  assume a: "seq_no pst symbol = Some pl \<and> map_of data ''sequence'' = Some (JInt sq) \<and>
    poloniex_check_update_id P symbol (JObj data) pst = Inr (False, pst')"
  then show "sq = pl + 1" "seq_no pst' symbol = Some (pl + 1)"
    by (auto simp add: poloniex_check_update_id_def bnd_def p_book_of_def as_dict_def
             split: option.splits if_splits)
next
  assume "last_update_id st pair = Some l \<and> binance_synced_run pair st st''"
  then show "\<exists>l'. last_update_id st'' pair = Some l' \<and> l \<le> l'"
    using binance_run_mono by blast
next
  assume "seq_no pst symbol = Some pl \<and> poloniex_synced_run P symbol pst pst''"
  then show "\<exists>l'. seq_no pst'' symbol = Some l' \<and> pl \<le> l'"
    using poloniex_run_mono by blast
qed

theorem C7_sequence_monotone_witness:
  "(\<exists>st'. binance_check_update_id ''BNB-BTC'' (depth_update 148 155 [] []) synced_150
            = Inr ((False, True), st') \<and>
          last_update_id st' ''BNB-BTC'' = Some 155 \<and> (150::int) + 1 \<le> 155 \<and>
          binance_synced_run ''BNB-BTC'' synced_150 st' \<and>
          (\<exists>l'. last_update_id st' ''BNB-BTC'' = Some l' \<and> 150 \<le> l')) \<and>
   (\<exists>pst'. poloniex_check_update_id sample_poloniex ''EGLD-USDT-PERP''
             (JObj (level2_data 101 ''55.29,sell,0'')) p_synced_100 = Inr (False, pst') \<and>
          seq_no pst' ''EGLD-USDT-PERP'' = Some (100 + 1) \<and>
          poloniex_synced_run sample_poloniex ''EGLD-USDT-PERP'' p_synced_100 pst' \<and>
          (\<exists>l'. seq_no pst' ''EGLD-USDT-PERP'' = Some l' \<and> 100 \<le> l'))"
proof -
  let ?m = "depth_update 148 155 [] []"
  let ?d = "level2_data 101 ''55.29,sell,0''"
  obtain st' where b: "binance_check_update_id ''BNB-BTC'' ?m synced_150 = Inr ((False, True), st')"
    using synced_150_first
    by (simp add: binance_check_cases [OF synced_150_last depth_update_U depth_update_u])
  have sn: "sequence_number \<lparr>ob_book = empty_l2, sequence_number = Some 100\<rparr> \<noteq> None"
    by simp
  obtain pst' where p: "poloniex_check_update_id sample_poloniex ''EGLD-USDT-PERP'' (JObj ?d) p_synced_100
      = Inr (False, pst')"
    by (simp add: poloniex_check_synced [OF p_synced_100_book sn p_synced_100_seq level2_sequence])
  note T = C7_sequence_monotone [where st = synced_150 and pair = "''BNB-BTC''" and l = 150
      and msg = ?m and U = 148 and u = 155 and f = True and st' = st'
      and pst = p_synced_100 and symbol = "''EGLD-USDT-PERP''" and data = ?d and sq = 101
      and P = sample_poloniex and pst' = pst' and pl = 100]
  from T [THEN conjunct1] synced_150_last depth_update_U depth_update_u b
  have b1: "last_update_id st' ''BNB-BTC'' = Some 155 \<and> (150::int) + 1 \<le> 155"
    by blast
  then have "last_update_id st' ''BNB-BTC'' \<noteq> None"
    by simp
  from b_run_step [OF b_run_refl depth_update_U depth_update_u _ b this]
  have br: "binance_synced_run ''BNB-BTC'' synced_150 st'"
    by simp
  from T [where st'' = st', THEN conjunct2, THEN conjunct2, THEN conjunct1] synced_150_last br
  have b2: "\<exists>l'. last_update_id st' ''BNB-BTC'' = Some l' \<and> 150 \<le> l'"
    by blast
  from T [THEN conjunct2, THEN conjunct1] p_synced_100_seq level2_sequence p
  have p1: "seq_no pst' ''EGLD-USDT-PERP'' = Some (100 + 1)"
    by blast
  from p_run_step [OF p_run_refl p_synced_100_book sn p_synced_100_seq level2_sequence _ p]
  have pr: "poloniex_synced_run sample_poloniex ''EGLD-USDT-PERP'' p_synced_100 pst'"
    by simp
  from T [where pst'' = pst', THEN conjunct2, THEN conjunct2, THEN conjunct2] p_synced_100_seq pr
  have p2: "\<exists>l'. seq_no pst' ''EGLD-USDT-PERP'' = Some l' \<and> 100 \<le> l'"
    by blast
  from b b1 br b2 p p1 pr p2 show ?thesis
    by blast
qed

subsection \<open>Trade sides\<close>

lemma binance_trade_side:
  assumes "map_of msg ''m'' = Some (JBool m)" and "binance_trade B msg timestamp st = Inr st'"
  shows "\<exists>order_id symbol amount price E.
           events st' =
             events st @ [TradeCb order_id symbol (if m then SELL else BUY) amount price E timestamp]"
proof -
  from assms(2) obtain price amount order_id symbol v E where
    "getitem msg ''m'' = Inr v"
    "st' = emit (TradeCb order_id symbol (if truthy v then SELL else BUY) amount price E timestamp) st"
    unfolding binance_trade_def bnd_eq_Inr by blast
  note r = this
  from r(1) assms(1) have "truthy v = m" by auto
  with r(2) have "events st' =
      events st @ [TradeCb order_id symbol (if m then SELL else BUY) amount price E timestamp]"
    by (simp add: emit_def)
  then show ?thesis by (intro exI)
qed

lemma poloniex_trade_side:
  assumes "map_of pmsg ''data'' = Some (JObj data)" and "map_of data ''side'' = Some (JStr s)"
    and "poloniex_trade P pmsg timestamp pst = Inr pst'"
  shows "\<exists>trade_id symbol amount price ts.
           p_events pst' =
             p_events pst @ [TradeEv trade_id symbol (if s = ''sell'' then SELL else BUY)
                               amount price ts pmsg timestamp]"
proof -
  from assms(3) obtain d price amount ts trade_id symbol v where
    "bnd (getitem pmsg ''data'') as_dict = Inr d" "getitem d ''side'' = Inr v"
    "pst' = p_emit (TradeEv trade_id symbol (if v = JStr ''sell'' then SELL else BUY)
                            amount price ts pmsg timestamp) pst"
    unfolding poloniex_trade_def bnd_eq_Inr by blast
  note r = this
  from r(1,2) assms(1,2) have "(v = JStr ''sell'') = (s = ''sell'')"
    by (auto simp add: as_dict_def)
  with r(3) have "p_events pst' =
      p_events pst @ [TradeEv trade_id symbol (if s = ''sell'' then SELL else BUY)
                        amount price ts pmsg timestamp]"
    by (simp add: p_emit_def)
  then show ?thesis by (intro exI)
qed

text \<open>
  C9 (trade side). Whenever \<^verbatim>\<open>Binance._trade\<close> returns for a message whose flag \<^verbatim>\<open>m\<close> is the
  boolean \<open>m\<close>, the callbacks made are those made before followed by exactly one trade
  callback, whose side is \<open>SELL\<close> if \<open>m\<close> is true and \<open>BUY\<close> otherwise. Whenever
  \<^verbatim>\<open>PoloniexFutures._trade\<close> returns for a message whose side is the string \<open>s\<close>, the callbacks
  made are those made before followed by exactly one trade callback, whose side is \<open>SELL\<close>
  if \<open>s\<close> is \<^verbatim>\<open>sell\<close> and \<open>BUY\<close> otherwise.
\<close>

theorem C9_trade_side:
  "(map_of msg ''m'' = Some (JBool m) \<and> binance_trade B msg timestamp st = Inr st' \<longrightarrow>
      (\<exists>order_id symbol amount price E.
         events st' =
           events st @ [TradeCb order_id symbol (if m then SELL else BUY) amount price E timestamp])) \<and>
   (map_of pmsg ''data'' = Some (JObj data) \<and> map_of data ''side'' = Some (JStr s) \<and>
    poloniex_trade P pmsg timestamp pst = Inr pst' \<longrightarrow>
      (\<exists>trade_id symbol amount price ts.
         p_events pst' =
           p_events pst @ [TradeEv trade_id symbol (if s = ''sell'' then SELL else BUY)
                             amount price ts pmsg timestamp]))"
  using binance_trade_side poloniex_trade_side by blast

theorem C9_trade_side_witness:
  "(\<exists>st'. binance_trade sample_binance agg_trade 0 unsynced = Inr st' \<and>
      (\<exists>order_id symbol amount price E.
         events st' = events unsynced @ [TradeCb order_id symbol SELL amount price E 0])) \<and>
   (\<exists>st'. binance_trade sample_binance (AList.update ''m'' (JBool False) agg_trade) 0 unsynced
             = Inr st' \<and>
      (\<exists>order_id symbol amount price E.
         events st' = events unsynced @ [TradeCb order_id symbol BUY amount price E 0])) \<and>
   (\<exists>pst'. poloniex_trade sample_poloniex (match_trade ''buy'') 0 p_synced_100 = Inr pst' \<and>
      (\<exists>trade_id symbol amount price ts.
         p_events pst' = p_events p_synced_100 @
           [TradeEv trade_id symbol BUY amount price ts (match_trade ''buy'') 0])) \<and>
   (\<exists>pst'. poloniex_trade sample_poloniex (match_trade ''sell'') 0 p_synced_100 = Inr pst' \<and>
      (\<exists>trade_id symbol amount price ts.
         p_events pst' = p_events p_synced_100 @
           [TradeEv trade_id symbol SELL amount price ts (match_trade ''sell'') 0]))"
proof -
  let ?X = "emit (TradeCb (JInt 12345) ''BNB-BTC'' SELL 100 (1 / 1000) (JInt 123456789) 0) unsynced"
  let ?X' = "emit (TradeCb (JInt 12345) ''BNB-BTC'' BUY 100 (1 / 1000) (JInt 123456789) 0) unsynced"
  let ?m' = "AList.update ''m'' (JBool False) agg_trade"
  let ?Y = "\<lambda>sd c. p_emit (TradeEv (JStr ''6355476b244b7900011a4f5f'') ''BTC-USDT-PERP'' c 1 19155
             (JInt 1666533227264166601) (match_trade sd) 0) p_synced_100"
  have b: "binance_trade sample_binance agg_trade 0 unsynced = Inr ?X"
    by (simp add: binance_trade_def agg_trade_def sample_binance_def get_decimal_def decimal_def
          sample_decimal_def get_symbol_def as_str_def std_symbol_def)
  have b': "binance_trade sample_binance ?m' 0 unsynced = Inr ?X'"
    by (simp add: binance_trade_def agg_trade_def sample_binance_def get_decimal_def decimal_def
          sample_decimal_def get_symbol_def as_str_def std_symbol_def)
  have p: "poloniex_trade sample_poloniex (match_trade ''buy'') 0 p_synced_100 = Inr (?Y ''buy'' BUY)"
    by (simp add: poloniex_trade_def match_trade_def match_data_def sample_poloniex_def
          p_decimal_def sample_decimal_def as_str_def as_dict_def p_std_symbol_def)
  have p': "poloniex_trade sample_poloniex (match_trade ''sell'') 0 p_synced_100 = Inr (?Y ''sell'' SELL)"
    by (simp add: poloniex_trade_def match_trade_def match_data_def sample_poloniex_def
          p_decimal_def sample_decimal_def as_str_def as_dict_def p_std_symbol_def)
  have m: "map_of agg_trade ''m'' = Some (JBool True)"
    by (simp add: agg_trade_def)
  have m': "map_of ?m' ''m'' = Some (JBool False)"
    by (simp add: agg_trade_def)
  have d: "map_of (match_trade sd) ''data'' = Some (JObj (match_data sd))" for sd
    by (simp add: match_trade_def)
  have sd: "map_of (match_data sd) ''side'' = Some (JStr sd)" for sd
    by (simp add: match_data_def)
  from C9_trade_side [where msg = agg_trade and m = True and B = sample_binance
      and timestamp = 0 and st = unsynced and st' = ?X, THEN conjunct1] m b
  have 1: "\<exists>order_id symbol amount price E.
      events ?X = events unsynced @
        [TradeCb order_id symbol (if True then SELL else BUY) amount price E 0]"
    by blast
  from C9_trade_side [where msg = ?m' and m = False and B = sample_binance
      and timestamp = 0 and st = unsynced and st' = ?X', THEN conjunct1] m' b'
  have 2: "\<exists>order_id symbol amount price E.
      events ?X' = events unsynced @
        [TradeCb order_id symbol (if False then SELL else BUY) amount price E 0]"
    by blast
  from C9_trade_side [where pmsg = "match_trade ''buy''"
      and data = "match_data ''buy''" and s = "''buy''" and P = sample_poloniex
      and timestamp = 0 and pst = p_synced_100 and pst' = "?Y ''buy'' BUY", THEN conjunct2] d sd p
  have 3: "\<exists>trade_id symbol amount price ts.
      p_events (?Y ''buy'' BUY) = p_events p_synced_100 @
        [TradeEv trade_id symbol (if ''buy'' = ''sell'' then SELL else BUY)
           amount price ts (match_trade ''buy'') 0]"
    by blast
  from C9_trade_side [where pmsg = "match_trade ''sell''"
      and data = "match_data ''sell''" and s = "''sell''" and P = sample_poloniex
      and timestamp = 0 and pst = p_synced_100 and pst' = "?Y ''sell'' SELL", THEN conjunct2] d sd p'
  have 4: "\<exists>trade_id symbol amount price ts.
      p_events (?Y ''sell'' SELL) = p_events p_synced_100 @
        [TradeEv trade_id symbol (if ''sell'' = ''sell'' then SELL else BUY)
           amount price ts (match_trade ''sell'') 0]"
    by blast
  from 1 b have 5: "\<exists>st'. binance_trade sample_binance agg_trade 0 unsynced = Inr st' \<and>
      (\<exists>order_id symbol amount price E.
         events st' = events unsynced @ [TradeCb order_id symbol SELL amount price E 0])"
    by simp
  from 2 b' have 6: "\<exists>st'. binance_trade sample_binance ?m' 0 unsynced = Inr st' \<and>
      (\<exists>order_id symbol amount price E.
         events st' = events unsynced @ [TradeCb order_id symbol BUY amount price E 0])"
    by simp
  from 3 p have 7: "\<exists>pst'. poloniex_trade sample_poloniex (match_trade ''buy'') 0 p_synced_100 = Inr pst' \<and>
      (\<exists>trade_id symbol amount price ts.
         p_events pst' = p_events p_synced_100 @
           [TradeEv trade_id symbol BUY amount price ts (match_trade ''buy'') 0])"
    by simp
  from 4 p' have 8: "\<exists>pst'. poloniex_trade sample_poloniex (match_trade ''sell'') 0 p_synced_100 = Inr pst' \<and>
      (\<exists>trade_id symbol amount price ts.
         p_events pst' = p_events p_synced_100 @
           [TradeEv trade_id symbol SELL amount price ts (match_trade ''sell'') 0])"
    by simp
  from 5 6 7 8 show ?thesis
    by (intro conjI)
qed

subsection \<open>Unrecognised messages\<close>

lemma unexpected_fields [simp]:
  "events (unexpected msg st) = events st"
  "l2_book (unexpected msg st) = l2_book st"
  "last_update_id (unexpected msg st) = last_update_id st"
  "forced (unexpected msg st) = forced st"
  "open_interest (unexpected msg st) = open_interest st"
  "requests (unexpected msg st) = requests st"
  "warnings (unexpected msg st) = warnings st @ [LogWarning ''Unexpected message received'' (Some msg)]"
  by (simp_all add: unexpected_def)

lemma binance_unknown_tag:
  assumes "map_of outer ''stream'' = Some (JStr strm)" and "split_once CHR ''@'' strm = Some (p, rest)"
    and "map_of outer ''data'' = Some (JObj m)"
    and "map_of m ''e'' = Some e"
    and "e \<noteq> JStr ''depthUpdate''" and "e \<noteq> JStr ''aggTrade''"
    and "e \<noteq> JStr ''forceOrder''" and "e \<noteq> JStr ''markPriceUpdate''"
  shows "binance_message_handler B (JObj outer) timestamp st = Inr (unexpected (JObj m) st)"
  using assms by (simp add: binance_message_handler_def as_dict_def py_in_def Let_def)

lemma binance_unknown_shape:
  assumes "map_of outer ''stream'' = Some (JStr strm)" and "split_once CHR ''@'' strm = Some (p, rest)"
    and "map_of outer ''data'' = Some (JObj m)"
    and "map_of m ''e'' = None" and "map_of m ''A'' = None"
  shows "binance_message_handler B (JObj outer) timestamp st = Inr (unexpected (JObj m) st)"
  using assms by (simp add: binance_message_handler_def as_dict_def py_in_def Let_def)

lemma poloniex_unknown:
  assumes "dict_get msg ''type'' \<notin> {JStr ''error'', JStr ''welcome'', JStr ''ack'', JStr ''subscribe''}"
    and "dict_get msg ''subject'' \<notin> {JStr ''match'', JStr ''level2''}"
  shows "poloniex_message_handler P (JObj msg) timestamp pst =
           Inr (pst\<lparr>p_log := p_log pst @ [LogWarning ''Invalid message type'' (Some (JObj msg))]\<rparr>)"
  using assms by (simp add: poloniex_message_handler_def Let_def)

lemma split_once_None: "sep \<notin> set s \<Longrightarrow> split_once sep s = None"
  by (induction s) auto

lemma binance_no_stream:
  assumes "map_of outer ''stream'' = None"
  shows "binance_message_handler B (JObj outer) timestamp st = Inl (KeyError ''stream'')"
  using assms by (simp add: binance_message_handler_def as_dict_def getitem_def)

lemma binance_no_separator:
  assumes "map_of outer ''stream'' = Some (JStr strm)" and "CHR ''@'' \<notin> set strm"
  shows "binance_message_handler B (JObj outer) timestamp st = Inl ValueError"
  using assms by (simp add: binance_message_handler_def as_dict_def split_once_None)

lemma poloniex_not_object:
  assumes "\<forall>d. frame \<noteq> JObj d"
  shows "poloniex_message_handler P frame timestamp pst = Inl AttributeError"
  using assms by (cases frame) (simp_all add: poloniex_message_handler_def)

text \<open>
  C8 (unrecognised messages). Binance: a combined-stream frame (\<^verbatim>\<open>stream\<close> of the form
  \<^verbatim>\<open>name@channel\<close>, \<^verbatim>\<open>data\<close> an object) whose data carries an event tag other than the four
  handled ones, or carries neither a tag \<^verbatim>\<open>e\<close> nor a key \<^verbatim>\<open>A\<close>, makes the handler return
  normally with one more warning and nothing else changed: no callback, same books, same
  identifiers, same flags. PoloniexFutures: a decoded object whose \<^verbatim>\<open>type\<close> is none of
  \<^verbatim>\<open>error\<close>, \<^verbatim>\<open>welcome\<close>, \<^verbatim>\<open>ack\<close>, \<^verbatim>\<open>subscribe\<close> and whose \<^verbatim>\<open>subject\<close> is neither \<^verbatim>\<open>match\<close> nor
  \<^verbatim>\<open>level2\<close> makes the handler return normally with one more warning and nothing else
  changed. Outside these envelopes the handlers do not log and return: the envelope is
  taken apart before the dispatch, so a Binance frame without a key \<^verbatim>\<open>stream\<close> ends in
  \<open>KeyError\<close>, one whose stream name has no \<^verbatim>\<open>@\<close> in \<open>ValueError\<close> (the unpacking of the
  split), and a PoloniexFutures frame that is not an object in \<open>AttributeError\<close> (it has no
  \<^verbatim>\<open>get\<close>).
\<close>

theorem C8_unrecognised_message:
  "(map_of outer ''stream'' = Some (JStr strm) \<and> split_once CHR ''@'' strm = Some (p, rest) \<and>
    map_of outer ''data'' = Some (JObj m) \<and>
    ((\<exists>e. map_of m ''e'' = Some e \<and>
          e \<notin> {JStr ''depthUpdate'', JStr ''aggTrade'', JStr ''forceOrder'', JStr ''markPriceUpdate''})
     \<or> (map_of m ''e'' = None \<and> map_of m ''A'' = None))
    \<longrightarrow> (\<exists>st'. binance_message_handler B (JObj outer) timestamp st = Inr st' \<and>
              events st' = events st \<and> l2_book st' = l2_book st \<and>
              last_update_id st' = last_update_id st \<and> forced st' = forced st \<and>
              requests st' = requests st \<and>
              warnings st' = warnings st @ [LogWarning ''Unexpected message received'' (Some (JObj m))])) \<and>
   (dict_get msg ''type'' \<notin> {JStr ''error'', JStr ''welcome'', JStr ''ack'', JStr ''subscribe''} \<and>
    dict_get msg ''subject'' \<notin> {JStr ''match'', JStr ''level2''}
    \<longrightarrow> (\<exists>pst'. poloniex_message_handler P (JObj msg) timestamp pst = Inr pst' \<and>
              p_events pst' = p_events pst \<and> p_l2_book pst' = p_l2_book pst \<and>
              seq_no pst' = seq_no pst \<and> p_requests pst' = p_requests pst \<and>
              p_log pst' = p_log pst @ [LogWarning ''Invalid message type'' (Some (JObj msg))])) \<and>
   (map_of outer' ''stream'' = None
    \<longrightarrow> binance_message_handler B (JObj outer') timestamp st = Inl (KeyError ''stream'')) \<and>
   (map_of outer' ''stream'' = Some (JStr strm') \<and> CHR ''@'' \<notin> set strm'
    \<longrightarrow> binance_message_handler B (JObj outer') timestamp st = Inl ValueError) \<and>
   ((\<forall>d. frame \<noteq> JObj d)
    \<longrightarrow> poloniex_message_handler P frame timestamp pst = Inl AttributeError)"
proof (intro conjI impI)
  assume a: "map_of outer ''stream'' = Some (JStr strm) \<and> split_once CHR ''@'' strm = Some (p, rest) \<and>
    map_of outer ''data'' = Some (JObj m) \<and>
    ((\<exists>e. map_of m ''e'' = Some e \<and>
          e \<notin> {JStr ''depthUpdate'', JStr ''aggTrade'', JStr ''forceOrder'', JStr ''markPriceUpdate''})
     \<or> (map_of m ''e'' = None \<and> map_of m ''A'' = None))"
  then have "binance_message_handler B (JObj outer) timestamp st = Inr (unexpected (JObj m) st)"
    using binance_unknown_tag [of outer strm p rest m] binance_unknown_shape [of outer strm p rest m]
    by auto
  then show "\<exists>st'. binance_message_handler B (JObj outer) timestamp st = Inr st' \<and>
              events st' = events st \<and> l2_book st' = l2_book st \<and>
              last_update_id st' = last_update_id st \<and> forced st' = forced st \<and>
              requests st' = requests st \<and>
              warnings st' = warnings st @ [LogWarning ''Unexpected message received'' (Some (JObj m))]"
    by simp
next
  assume "dict_get msg ''type'' \<notin> {JStr ''error'', JStr ''welcome'', JStr ''ack'', JStr ''subscribe''} \<and>
    dict_get msg ''subject'' \<notin> {JStr ''match'', JStr ''level2''}"
  then have "poloniex_message_handler P (JObj msg) timestamp pst =
           Inr (pst\<lparr>p_log := p_log pst @ [LogWarning ''Invalid message type'' (Some (JObj msg))]\<rparr>)"
    using poloniex_unknown by blast
  then show "\<exists>pst'. poloniex_message_handler P (JObj msg) timestamp pst = Inr pst' \<and>
              p_events pst' = p_events pst \<and> p_l2_book pst' = p_l2_book pst \<and>
              seq_no pst' = seq_no pst \<and> p_requests pst' = p_requests pst \<and>
              p_log pst' = p_log pst @ [LogWarning ''Invalid message type'' (Some (JObj msg))]"
    by simp
next
  assume "map_of outer' ''stream'' = None"
  then show "binance_message_handler B (JObj outer') timestamp st = Inl (KeyError ''stream'')"
    by (rule binance_no_stream)
next
  assume "map_of outer' ''stream'' = Some (JStr strm') \<and> CHR ''@'' \<notin> set strm'"
  then show "binance_message_handler B (JObj outer') timestamp st = Inl ValueError"
    using binance_no_separator by blast
next
  assume "\<forall>d. frame \<noteq> JObj d"
  then show "poloniex_message_handler P frame timestamp pst = Inl AttributeError"
    by (rule poloniex_not_object)
qed

text \<open>
  The reply to a subscription request, \<^verbatim>\<open>{"result": null, "id": 1}\<close>, comes without the envelope
  and matches no variant; so does a frame whose stream name has no \<^verbatim>\<open>@\<close>, and a
  PoloniexFutures frame that is an array. None of them is logged and dropped: the handlers
  raise.
\<close>

theorem C8_frame_without_envelope_counterexample:
  "binance_message_handler sample_binance (JObj reply_data) 0 synced_150 = Inl (KeyError ''stream'') \<and>
   binance_message_handler sample_binance (JObj bare_outer) 0 synced_150 = Inl ValueError \<and>
   poloniex_message_handler sample_poloniex (JArr [JObj pong_msg]) 0 p_synced_100 = Inl AttributeError"
  by (simp add: binance_message_handler_def poloniex_message_handler_def as_dict_def getitem_def
        reply_data_def bare_outer_def)

theorem C8_unrecognised_message_witness:
  "(\<exists>st'. binance_message_handler sample_binance (JObj kline_outer) 0 synced_150 = Inr st' \<and>
          events st' = events synced_150 \<and> l2_book st' = l2_book synced_150 \<and>
          last_update_id st' = last_update_id synced_150 \<and> forced st' = forced synced_150 \<and>
          requests st' = requests synced_150 \<and>
          warnings st' = warnings synced_150 @
             [LogWarning ''Unexpected message received'' (Some (JObj kline_data))]) \<and>
   (\<exists>st'. binance_message_handler sample_binance (JObj reply_outer) 0 synced_150 = Inr st' \<and>
          events st' = events synced_150 \<and> l2_book st' = l2_book synced_150 \<and>
          last_update_id st' = last_update_id synced_150 \<and> forced st' = forced synced_150 \<and>
          requests st' = requests synced_150 \<and>
          warnings st' = warnings synced_150 @
             [LogWarning ''Unexpected message received'' (Some (JObj reply_data))]) \<and>
   (\<exists>pst'. poloniex_message_handler sample_poloniex (JObj pong_msg) 0 p_synced_100 = Inr pst' \<and>
          p_events pst' = p_events p_synced_100 \<and> p_l2_book pst' = p_l2_book p_synced_100 \<and>
          seq_no pst' = seq_no p_synced_100 \<and> p_requests pst' = p_requests p_synced_100 \<and>
          p_log pst' = p_log p_synced_100 @
             [LogWarning ''Invalid message type'' (Some (JObj pong_msg))]) \<and>
   binance_message_handler sample_binance (JObj reply_data) 0 synced_150 = Inl (KeyError ''stream'') \<and>
   binance_message_handler sample_binance (JObj bare_outer) 0 synced_150 = Inl ValueError \<and>
   poloniex_message_handler sample_poloniex (JArr [JObj pong_msg]) 0 p_synced_100 = Inl AttributeError"
proof (intro conjI)
  have k: "map_of kline_outer ''stream'' = Some (JStr ''bnbbtc@kline_1m'') \<and>
           split_once CHR ''@'' ''bnbbtc@kline_1m'' = Some (''bnbbtc'', ''kline_1m'') \<and>
           map_of kline_outer ''data'' = Some (JObj kline_data) \<and>
           ((\<exists>e. map_of kline_data ''e'' = Some e \<and>
               e \<notin> {JStr ''depthUpdate'', JStr ''aggTrade'', JStr ''forceOrder'', JStr ''markPriceUpdate''})
            \<or> (map_of kline_data ''e'' = None \<and> map_of kline_data ''A'' = None))"
    by (simp add: kline_outer_def kline_data_def)
  from C8_unrecognised_message [where outer = kline_outer and m = kline_data
      and strm = "''bnbbtc@kline_1m''" and p = "''bnbbtc''" and rest = "''kline_1m''"
      and B = sample_binance and timestamp = 0 and st = synced_150, THEN conjunct1] k
  show "\<exists>st'. binance_message_handler sample_binance (JObj kline_outer) 0 synced_150 = Inr st' \<and>
          events st' = events synced_150 \<and> l2_book st' = l2_book synced_150 \<and>
          last_update_id st' = last_update_id synced_150 \<and> forced st' = forced synced_150 \<and>
          requests st' = requests synced_150 \<and>
          warnings st' = warnings synced_150 @
             [LogWarning ''Unexpected message received'' (Some (JObj kline_data))]"
    by (rule mp)
next
  have r: "map_of reply_outer ''stream'' = Some (JStr ''bnbbtc@depth'') \<and>
           split_once CHR ''@'' ''bnbbtc@depth'' = Some (''bnbbtc'', ''depth'') \<and>
           map_of reply_outer ''data'' = Some (JObj reply_data) \<and>
           ((\<exists>e. map_of reply_data ''e'' = Some e \<and>
               e \<notin> {JStr ''depthUpdate'', JStr ''aggTrade'', JStr ''forceOrder'', JStr ''markPriceUpdate''})
            \<or> (map_of reply_data ''e'' = None \<and> map_of reply_data ''A'' = None))"
    by (simp add: reply_outer_def reply_data_def)
  from C8_unrecognised_message [where outer = reply_outer and m = reply_data
      and strm = "''bnbbtc@depth''" and p = "''bnbbtc''" and rest = "''depth''"
      and B = sample_binance and timestamp = 0 and st = synced_150, THEN conjunct1] r
  show "\<exists>st'. binance_message_handler sample_binance (JObj reply_outer) 0 synced_150 = Inr st' \<and>
          events st' = events synced_150 \<and> l2_book st' = l2_book synced_150 \<and>
          last_update_id st' = last_update_id synced_150 \<and> forced st' = forced synced_150 \<and>
          requests st' = requests synced_150 \<and>
          warnings st' = warnings synced_150 @
             [LogWarning ''Unexpected message received'' (Some (JObj reply_data))]"
    by (rule mp)
next
  have g: "dict_get pong_msg ''type'' \<notin> {JStr ''error'', JStr ''welcome'', JStr ''ack'', JStr ''subscribe''} \<and>
           dict_get pong_msg ''subject'' \<notin> {JStr ''match'', JStr ''level2''}"
    by (simp add: pong_msg_def dict_get_def)
  from C8_unrecognised_message [where msg = pong_msg and P = sample_poloniex and timestamp = 0
      and pst = p_synced_100, THEN conjunct2, THEN conjunct1] g
  show "\<exists>pst'. poloniex_message_handler sample_poloniex (JObj pong_msg) 0 p_synced_100 = Inr pst' \<and>
          p_events pst' = p_events p_synced_100 \<and> p_l2_book pst' = p_l2_book p_synced_100 \<and>
          seq_no pst' = seq_no p_synced_100 \<and> p_requests pst' = p_requests p_synced_100 \<and>
          p_log pst' = p_log p_synced_100 @
             [LogWarning ''Invalid message type'' (Some (JObj pong_msg))]"
    by (rule mp)
next
  have n: "map_of reply_data ''stream'' = None"
    by (simp add: reply_data_def)
  from C8_unrecognised_message [where outer' = reply_data and B = sample_binance
      and timestamp = 0 and st = synced_150,
      THEN conjunct2, THEN conjunct2, THEN conjunct1] n
  show "binance_message_handler sample_binance (JObj reply_data) 0 synced_150
          = Inl (KeyError ''stream'')"
    by (rule mp)
next
  have n: "map_of bare_outer ''stream'' = Some (JStr ''bnbbtc'') \<and> CHR ''@'' \<notin> set ''bnbbtc''"
    by (simp add: bare_outer_def)
  from C8_unrecognised_message [where outer' = bare_outer and strm' = "''bnbbtc''"
      and B = sample_binance and timestamp = 0 and st = synced_150,
      THEN conjunct2, THEN conjunct2, THEN conjunct2, THEN conjunct1] n
  show "binance_message_handler sample_binance (JObj bare_outer) 0 synced_150 = Inl ValueError"
    by (rule mp)
next
  have n: "\<forall>d. JArr [JObj pong_msg] \<noteq> JObj d"
    by simp
  from C8_unrecognised_message [where frame = "JArr [JObj pong_msg]" and P = sample_poloniex
      and timestamp = 0 and pst = p_synced_100,
      THEN conjunct2, THEN conjunct2, THEN conjunct2, THEN conjunct2] n
  show "poloniex_message_handler sample_poloniex (JArr [JObj pong_msg]) 0 p_synced_100
          = Inl AttributeError"
    by (rule mp)
qed

subsection \<open>Removal of a level that is not there\<close>

lemma book_of_Some [simp]: "l2_book st pair = Some bk \<Longrightarrow> book_of st pair = Inr bk"
  by (simp add: book_of_def)

lemma binance_remove_absent:
  assumes "price_amount B upd = Inr (price, 0)" and "l2_book st pair = Some bk"
    and "bk sd price = None"
  shows "binance_apply_update B pair sd upd (st, dl) = Inr (st, dl)"
  using assms by (simp add: binance_apply_update_def)

lemma binance_remove_absent_all:
  assumes "l2_book st pair = Some bk"
    and "\<forall>upd \<in> set upds. \<exists>price. price_amount B upd = Inr (price, 0) \<and> bk sd price = None"
  shows "binance_apply_updates B pair sd upds (st, dl) = Inr (st, dl)"
  using assms
proof (induction upds)
  case Nil
  then show ?case by simp
next
  case (Cons upd upds)
  from Cons.prems(2) obtain price where
    "price_amount B upd = Inr (price, 0)" "bk sd price = None" by auto
  with Cons.prems(1) have "binance_apply_update B pair sd upd (st, dl) = Inr (st, dl)"
    by (simp add: binance_remove_absent)
  with Cons show ?case by simp
qed

lemma binance_remove_present:
  assumes "price_amount B upd = Inr (price, 0)" and "l2_book st pair = Some bk"
    and "binance_apply_update B pair sd upd (st, dl) = Inr (st', dl')"
  shows "(bk sd price = None \<longrightarrow> st' = st \<and> dl' = dl) \<and>
         (bk sd price \<noteq> None \<longrightarrow>
            dl' = dl(sd := dl sd @ [(price, 0)]) \<and>
            l2_book st' pair = Some (bk(sd := (bk sd)(price := None))))"
  using assms by (auto simp add: binance_apply_update_def)

text \<open>
  C6 (idempotent level removal). Binance: an entry that decodes to \<open>(price, 0)\<close> for a price
  that the side does not hold returns the state and the delta as they are, without an
  error; so does a whole list of such entries; and when any zero-size entry has been
  processed, the delta has grown by \<open>(price, 0)\<close> on that side if the level was there and
  is unchanged, together with the state, if it was not. PoloniexFutures: the change
  \<open>(price, 0)\<close> for a price the side does not hold returns the book and the delta as they
  are, and a zero-size change extends the delta only if the level was there.
\<close>

theorem C6_idempotent_removal:
  "(price_amount B upd = Inr (price, 0) \<and> l2_book st pair = Some bk \<and> bk sd price = None
      \<longrightarrow> binance_apply_update B pair sd upd (st, dl) = Inr (st, dl)) \<and>
   (l2_book st pair = Some bk \<and>
    (\<forall>upd \<in> set upds. \<exists>price. price_amount B upd = Inr (price, 0) \<and> bk sd price = None)
      \<longrightarrow> binance_apply_updates B pair sd upds (st, dl) = Inr (st, dl)) \<and>
   (price_amount B upd = Inr (price, 0) \<and> l2_book st pair = Some bk \<and>
    binance_apply_update B pair sd upd (st, dl) = Inr (st', dl')
      \<longrightarrow> (bk sd price = None \<longrightarrow> st' = st \<and> dl' = dl) \<and>
          (bk sd price \<noteq> None \<longrightarrow> dl' = dl(sd := dl sd @ [(price, 0)]))) \<and>
   (ob_book obk sd price = None
      \<longrightarrow> poloniex_apply_change sd price 0 (obk, dl) = (obk, dl)) \<and>
   (poloniex_apply_change sd price 0 (obk, dl) = (obk', dl')
      \<longrightarrow> (ob_book obk sd price = None \<longrightarrow> obk' = obk \<and> dl' = dl) \<and>
          (ob_book obk sd price \<noteq> None \<longrightarrow> dl' = dl(sd := dl sd @ [(price, 0)])))"
proof (intro conjI impI)
  assume "price_amount B upd = Inr (price, 0) \<and> l2_book st pair = Some bk \<and> bk sd price = None"
  then show "binance_apply_update B pair sd upd (st, dl) = Inr (st, dl)"
    using binance_remove_absent by blast
next
  assume "l2_book st pair = Some bk \<and>
    (\<forall>upd \<in> set upds. \<exists>price. price_amount B upd = Inr (price, 0) \<and> bk sd price = None)"
  then show "binance_apply_updates B pair sd upds (st, dl) = Inr (st, dl)"
    using binance_remove_absent_all by blast
next
  assume a: "price_amount B upd = Inr (price, 0) \<and> l2_book st pair = Some bk \<and>
    binance_apply_update B pair sd upd (st, dl) = Inr (st', dl')"
  {
    assume "bk sd price = None"
    with a binance_remove_present [of B upd price st pair bk sd dl st' dl']
    show "st' = st" "dl' = dl" by blast+
  }
  {
    assume "bk sd price \<noteq> None"
    with a binance_remove_present [of B upd price st pair bk sd dl st' dl']
    show "dl' = dl(sd := dl sd @ [(price, 0)])" by blast
  }
next
  assume "ob_book obk sd price = None"
  then show "poloniex_apply_change sd price 0 (obk, dl) = (obk, dl)"
    by (simp add: poloniex_apply_change_def)
next
  assume a: "poloniex_apply_change sd price 0 (obk, dl) = (obk', dl')"
  {
    assume "ob_book obk sd price = None"
    with a show "obk' = obk" "dl' = dl" by (simp_all add: poloniex_apply_change_def)
  }
  {
    assume "ob_book obk sd price \<noteq> None"
    with a show "dl' = dl(sd := dl sd @ [(price, 0)])" by (auto simp add: poloniex_apply_change_def)
  }
qed

lemma synced_150_book: "l2_book synced_150 ''BNB-BTC'' = Some empty_l2"
  by (simp add: synced_150_def)

lemma sample_zero_entry:
  "price_amount sample_binance (JArr [JStr ''0.001'', JStr ''0'']) = Inr (1 / 1000, 0)"
  by (simp add: price_amount_def as_list_def item_def decimal_def sample_binance_def
        sample_decimal_def)

lemma sample_zero_entry':
  "price_amount sample_binance (JArr [JInt 100, JInt 0]) = Inr (100, 0)"
  by (simp add: price_amount_def as_list_def item_def decimal_def sample_binance_def
        sample_decimal_def)

theorem C6_idempotent_removal_witness:
  "binance_apply_update sample_binance ''BNB-BTC'' BID (JArr [JStr ''0.001'', JStr ''0''])
     (synced_150, empty_delta) = Inr (synced_150, empty_delta) \<and>
   binance_apply_updates sample_binance ''BNB-BTC'' BID
     [JArr [JStr ''0.001'', JStr ''0''], JArr [JInt 100, JInt 0]]
     (synced_150, empty_delta) = Inr (synced_150, empty_delta) \<and>
   poloniex_apply_change ASK (5529 / 100) 0
     (\<lparr>ob_book = empty_l2, sequence_number = Some 100\<rparr>, empty_delta)
     = (\<lparr>ob_book = empty_l2, sequence_number = Some 100\<rparr>, empty_delta)"
proof (intro conjI)
  note T = C6_idempotent_removal [where B = sample_binance and pair = "''BNB-BTC''"
      and st = synced_150 and bk = empty_l2 and sd = BID and dl = empty_delta]
  have e: "empty_l2 BID q = None" for q
    by (simp add: empty_l2_def)
  have h1: "price_amount sample_binance (JArr [JStr ''0.001'', JStr ''0'']) = Inr (1 / 1000, 0) \<and>
            l2_book synced_150 ''BNB-BTC'' = Some empty_l2 \<and> empty_l2 BID (1 / 1000) = None"
    using sample_zero_entry synced_150_book by (simp add: empty_l2_def)
  from T [where upd = "JArr [JStr ''0.001'', JStr ''0'']" and price = "1 / 1000", THEN conjunct1] h1
  show "binance_apply_update sample_binance ''BNB-BTC'' BID (JArr [JStr ''0.001'', JStr ''0''])
     (synced_150, empty_delta) = Inr (synced_150, empty_delta)"
    by (rule mp)
  have h2: "l2_book synced_150 ''BNB-BTC'' = Some empty_l2 \<and>
     (\<forall>upd \<in> set [JArr [JStr ''0.001'', JStr ''0''], JArr [JInt 100, JInt 0]].
         \<exists>price. price_amount sample_binance upd = Inr (price, 0) \<and> empty_l2 BID price = None)"
  proof (intro conjI ballI)
    show "l2_book synced_150 ''BNB-BTC'' = Some empty_l2"
      by (rule synced_150_book)
  next
    fix upd
    assume "upd \<in> set [JArr [JStr ''0.001'', JStr ''0''], JArr [JInt 100, JInt 0]]"
    then consider "upd = JArr [JStr ''0.001'', JStr ''0'']" | "upd = JArr [JInt 100, JInt 0]"
      by auto
    then show "\<exists>price. price_amount sample_binance upd = Inr (price, 0) \<and> empty_l2 BID price = None"
    proof cases
      case 1
      with sample_zero_entry e show ?thesis by blast
    next
      case 2
      with sample_zero_entry' e show ?thesis by blast
    qed
  qed
  from T [where upds = "[JArr [JStr ''0.001'', JStr ''0''], JArr [JInt 100, JInt 0]]",
          THEN conjunct2, THEN conjunct1] h2
  show "binance_apply_updates sample_binance ''BNB-BTC'' BID
     [JArr [JStr ''0.001'', JStr ''0''], JArr [JInt 100, JInt 0]]
     (synced_150, empty_delta) = Inr (synced_150, empty_delta)"
    by (rule mp)
  have h3: "ob_book \<lparr>ob_book = empty_l2, sequence_number = Some 100\<rparr> ASK (5529 / 100) = None"
    by (simp add: empty_l2_def)
  from C6_idempotent_removal [where obk = "\<lparr>ob_book = empty_l2, sequence_number = Some 100\<rparr>"
      and sd = ASK and price = "5529 / 100" and dl = empty_delta,
      THEN conjunct2, THEN conjunct2, THEN conjunct2, THEN conjunct1] h3
  show "poloniex_apply_change ASK (5529 / 100) 0
     (\<lparr>ob_book = empty_l2, sequence_number = Some 100\<rparr>, empty_delta)
     = (\<lparr>ob_book = empty_l2, sequence_number = Some 100\<rparr>, empty_delta)"
    by (rule mp)
qed

subsection \<open>Gaps (Binance)\<close>

lemma missing_update_fields [simp]:
  "l2_book (missing_update st) = Map.empty"
  "forced (missing_update st) = Map.empty"
  "open_interest (missing_update st) = Map.empty"
  "events (missing_update st) = events st"
  "requests (missing_update st) = requests st"
  "warnings (missing_update st) =
     warnings st @ [LogWarning ''Missing book update detected, resetting book'' None]"
  by (simp_all add: missing_update_def binance_reset_def)

lemma binance_check_requests:
  assumes "binance_check_update_id pair msg st = Inr (r, st')"
  shows "requests st' = requests st \<and> events st' = events st"
  using assms
  by (auto simp add: binance_check_update_id_def Let_def bnd_eq_Inr split: if_splits)

lemma binance_apply_update_frame:
  assumes "binance_apply_update B pair sd upd (st, dl) = Inr (st', dl')"
  shows "requests st' = requests st \<and> events st' = events st \<and> warnings st' = warnings st \<and>
         last_update_id st' = last_update_id st \<and> forced st' = forced st"
  using assms
  by (auto simp add: binance_apply_update_def bnd_eq_Inr split: if_splits)

lemma binance_apply_updates_frame:
  assumes "binance_apply_updates B pair sd upds (st, dl) = Inr (st', dl')"
  shows "requests st' = requests st \<and> events st' = events st \<and> warnings st' = warnings st \<and>
         last_update_id st' = last_update_id st \<and> forced st' = forced st"
  using assms
proof (induction upds arbitrary: st dl)
  case Nil
  then show ?case by simp
next
  case (Cons upd upds)
  from Cons.prems obtain st1 dl1 where
    1: "binance_apply_update B pair sd upd (st, dl) = Inr (st1, dl1)" and
    2: "binance_apply_updates B pair sd upds (st1, dl1) = Inr (st', dl')"
    by (auto simp add: bnd_eq_Inr)
  from Cons.IH [OF 2] binance_apply_update_frame [OF 1] show ?case by simp
qed

lemma binance_apply_side_frame:
  assumes "binance_apply_side B pair msg s sd (st, dl) = Inr (st', dl')"
  shows "requests st' = requests st \<and> events st' = events st \<and> warnings st' = warnings st \<and>
         last_update_id st' = last_update_id st \<and> forced st' = forced st"
proof -
  from assms obtain xs where "binance_apply_updates B pair sd xs (st, dl) = Inr (st', dl')"
    by (auto simp add: binance_apply_side_def bnd_eq_Inr)
  then show ?thesis by (rule binance_apply_updates_frame)
qed

lemma binance_book_apply_frame:
  assumes "binance_book_apply B msg pair timestamp frc st = Inr st'"
  shows "requests st' = requests st \<and> warnings st' = warnings st \<and>
         last_update_id st' = last_update_id st \<and> forced st' = forced st \<and>
         (\<exists>bk dl ts. l2_book st' pair = Some bk \<and>
            events st' = events st @ [BookCb bk pair frc dl ts timestamp])"
proof -
  from assms obtain ts st3 dl3 st4 dl4 bk where
    b: "binance_apply_side B pair msg ''b'' BID (st, empty_delta) = Inr (st3, dl3)" and
    a: "binance_apply_side B pair msg ''a'' ASK (st3, dl3) = Inr (st4, dl4)" and
    k: "book_of st4 pair = Inr bk" and
    r: "st' = st4\<lparr>events := events st4 @ [BookCb bk pair frc dl4 ts timestamp]\<rparr>"
    by (auto simp add: binance_book_apply_def bnd_eq_Inr)
  from k have "l2_book st4 pair = Some bk"
    by (simp add: book_of_def split: option.splits)
  with binance_apply_side_frame [OF b] binance_apply_side_frame [OF a] r
  show ?thesis by simp
qed

lemma binance_snapshot_requests:
  assumes "binance_snapshot B xpair st = Inr st'"
  shows "requests st' = requests st @ [snapshot_url B xpair] \<and> events st' = events st"
  using assms
  by (auto simp add: binance_snapshot_def Let_def bnd_eq_Inr split: option.splits)

lemma binance_book_bootstrap:
  assumes "symbol_exchange_to_std B xpair = Some pair" and "l2_book st pair = None"
    and "binance_book B msg xpair timestamp st = Inr st'"
  shows "requests st' = requests st @ [snapshot_url B xpair]"
proof -
  from assms obtain st1 skip frc st2 where
    s: "binance_snapshot B xpair st = Inr st1" and
    c: "binance_check_update_id pair msg st1 = Inr ((skip, frc), st2)" and
    r: "(if skip then Inr st2 else binance_book_apply B msg pair timestamp frc st2) = Inr st'"
    by (auto simp add: binance_book_def std_symbol_def bnd_eq_Inr)
  from r have "requests st' = requests st2"
    by (auto split: if_splits dest: binance_book_apply_frame)
  with binance_check_requests [OF c] binance_snapshot_requests [OF s] show ?thesis by simp
qed

lemma binance_book_gap:
  assumes "symbol_exchange_to_std B xpair = Some pair" and "l2_book st pair = Some bk"
    and "last_update_id st pair = Some l"
    and "map_of msg ''U'' = Some (JInt U)" and "map_of msg ''u'' = Some (JInt u)"
    and "(\<not> forced_get st pair \<and> l < u \<and> l + 1 < U) \<or> (forced_get st pair \<and> l + 1 \<noteq> U)"
  shows "binance_book B msg xpair timestamp st = Inr (missing_update (forced_touch pair st))"
  using assms
  by (auto simp add: binance_book_def std_symbol_def binance_check_cases)

lemma binance_snapshot_frame:
  assumes "binance_snapshot B xpair st = Inr st1"
  shows "requests st1 = requests st @ [snapshot_url B xpair]" and "events st1 = events st"
    and "warnings st1 = warnings st" and "forced st1 = forced st"
  using assms
  by (auto simp add: binance_snapshot_def Let_def bnd_eq_Inr split: option.splits)

lemma binance_check_gap:
  assumes "last_update_id st pair = Some l" and "map_of msg ''U'' = Some (JInt U)"
    and "(\<not> forced_get st pair \<and> map_of msg ''u'' = Some (JInt u) \<and> l < u \<and> l + 1 < U) \<or>
         (forced_get st pair \<and> l + 1 \<noteq> U)"
  shows "binance_check_update_id pair msg st =
           Inr ((True, \<not> forced_get st pair), missing_update (forced_touch pair st))"
  using assms by (auto simp add: binance_check_update_id_def Let_def)

lemma binance_book_gap_after:
  assumes "symbol_exchange_to_std B xpair = Some pair"
    and "(l2_book st pair \<noteq> None \<and> st1 = st) \<or>
         (l2_book st pair = None \<and> binance_snapshot B xpair st = Inr st1)"
    and "last_update_id st1 pair = Some l" and "map_of msg ''U'' = Some (JInt U)"
    and "(\<not> forced_get st1 pair \<and> map_of msg ''u'' = Some (JInt u) \<and> l < u \<and> l + 1 < U) \<or>
         (forced_get st1 pair \<and> l + 1 \<noteq> U)"
  shows "binance_book B msg xpair timestamp st = Inr (missing_update (forced_touch pair st1))"
proof -
  from assms(2) have s: "(if l2_book st pair = None then binance_snapshot B xpair st else Inr st) = Inr st1"
    by auto
  show ?thesis
    unfolding binance_book_def
    by (simp add: std_symbol_def assms(1) s binance_check_gap [OF assms(3,4,5)])
qed

subsection \<open>Snapshot bootstrap\<close>

lemma snapshot_levels_decoded:
  assumes "map (price_amount B) xs = map Inr ps"
  shows "snapshot_levels B xs m = Inr (m ++ map_of (rev ps))"
  using assms
proof (induction xs arbitrary: ps m)
  case Nil
  then show ?case by simp
next
  case (Cons x xs)
  then obtain p ps' where ps: "ps = p # ps'" "price_amount B x = Inr p"
    "map (price_amount B) xs = map Inr ps'"
    by (cases ps) auto
  obtain price amount where p: "p = (price, amount)" by (cases p)
  have e: "m(price \<mapsto> amount) ++ map_of (rev ps') = m ++ map_of (rev ps)"
    unfolding ps(1) p by (rule ext) (simp add: map_add_def split: option.splits)
  have "snapshot_levels B (x # xs) m = snapshot_levels B xs (m(price \<mapsto> amount))"
    using ps(2) p by simp
  also have "\<dots> = Inr (m(price \<mapsto> amount) ++ map_of (rev ps'))"
    by (rule Cons.IH [OF ps(3)])
  finally show ?case
    unfolding e .
qed

lemma p_levels_decoded:
  assumes "map (p_price_amount P) xs = map Inr ps"
  shows "p_levels P xs m = Inr (m ++ map_of (rev ps))"
  using assms
proof (induction xs arbitrary: ps m)
  case Nil
  then show ?case by simp
next
  case (Cons x xs)
  then obtain p ps' where ps: "ps = p # ps'" "p_price_amount P x = Inr p"
    "map (p_price_amount P) xs = map Inr ps'"
    by (cases ps) auto
  obtain price amount where p: "p = (price, amount)" by (cases p)
  have e: "m(price \<mapsto> amount) ++ map_of (rev ps') = m ++ map_of (rev ps)"
    unfolding ps(1) p by (rule ext) (simp add: map_add_def split: option.splits)
  have "p_levels P (x # xs) m = p_levels P xs (m(price \<mapsto> amount))"
    using ps(2) p by simp
  also have "\<dots> = Inr (m(price \<mapsto> amount) ++ map_of (rev ps'))"
    by (rule Cons.IH [OF ps(3)])
  finally show ?case
    unfolding e .
qed

lemma side_levels_decoded:
  assumes "map_of resp s = Some (JArr xs)" and "map (price_amount B) xs = map Inr ps"
  shows "side_levels B resp s = Inr (map_of (rev ps))"
  using assms snapshot_levels_decoded [of B xs ps Map.empty]
  by (simp add: side_levels_def as_list_def)

lemma p_side_levels_decoded:
  assumes "map_of data s = Some (JArr xs)" and "map (p_price_amount P) xs = map Inr ps"
  shows "p_side_levels P data s = Inr (map_of (rev ps))"
  using assms p_levels_decoded [of P xs ps Map.empty]
  by (simp add: p_side_levels_def as_list_def)

lemma binance_snapshot_ok:
  assumes "conn_get B (length (requests st)) (snapshot_url B xpair) = Some (JObj resp)"
    and "symbol_exchange_to_std B xpair = Some pair"
    and "map_of resp ''lastUpdateId'' = Some (JInt lid)"
    and "map_of resp ''bids'' = Some (JArr bxs)" and "map (price_amount B) bxs = map Inr bps"
    and "map_of resp ''asks'' = Some (JArr axs)" and "map (price_amount B) axs = map Inr aps"
  shows "binance_snapshot B xpair st =
           Inr (st\<lparr>requests := requests st @ [snapshot_url B xpair],
                   last_update_id := (last_update_id st)(pair \<mapsto> lid),
                   l2_book := (l2_book st)(pair \<mapsto> l2_of (map_of (rev bps)) (map_of (rev aps)))\<rparr>)"
  using assms(1,2,3) side_levels_decoded [OF assms(4,5)] side_levels_decoded [OF assms(6,7)]
  by (simp add: binance_snapshot_def Let_def as_dict_def std_symbol_def)

lemma poloniex_snapshot_ok:
  assumes "http_read P (length (p_requests st)) xsym = Some (JObj res)"
    and "map_of res ''data'' = Some (JObj data)"
    and "exchange_symbol_to_std_symbol P xsym = Some symbol"
    and "map_of data ''sequence'' = Some (JInt sq)"
    and "map_of data ''bids'' = Some (JArr bxs)" and "map (p_price_amount P) bxs = map Inr bps"
    and "map_of data ''asks'' = Some (JArr axs)" and "map (p_price_amount P) axs = map Inr aps"
  shows "poloniex_snapshot P xsym st =
           Inr (st\<lparr>p_requests := p_requests st @ [xsym],
                   seq_no := (seq_no st)(symbol \<mapsto> sq),
                   p_l2_book := (p_l2_book st)(symbol \<mapsto> book_callback P
                      (snapshot_call \<lparr>ob_book = l2_of (map_of (rev bps)) (map_of (rev aps)),
                                      sequence_number = None\<rparr> data sq)),
                   p_events := p_events st @
                      [BookEv (snapshot_call \<lparr>ob_book = l2_of (map_of (rev bps)) (map_of (rev aps)),
                                              sequence_number = None\<rparr> data sq)]\<rparr>)"
  using assms(1,2,3,4) p_side_levels_decoded [OF assms(5,6)] p_side_levels_decoded [OF assms(7,8)]
  by (simp add: poloniex_snapshot_def Let_def as_dict_def p_std_symbol_def new_order_book_def)

lemma binance_book_first_stale:
  assumes "symbol_exchange_to_std B xpair = Some pair" and "l2_book st pair = None"
    and "\<not> forced_get st pair" and "binance_snapshot B xpair st = Inr st1"
    and "last_update_id st1 pair = Some lid" and "map_of msg ''u'' = Some (JInt u)"
    and "u \<le> lid"
  shows "binance_book B msg xpair timestamp st = Inr (forced_touch pair st1)"
proof -
  from binance_snapshot_frame(4) [OF assms(4)] assms(3) have f: "\<not> forced_get st1 pair"
    by (simp add: forced_get_def)
  have "binance_check_update_id pair msg st1 = Inr ((True, True), forced_touch pair st1)"
    using f assms(5,6,7) by (simp add: binance_check_update_id_def Let_def)
  then show ?thesis
    by (simp add: binance_book_def std_symbol_def assms(1,2,4))
qed

lemma binance_book_first_accepted:
  assumes "symbol_exchange_to_std B xpair = Some pair" and "l2_book st pair = None"
    and "\<not> forced_get st pair" and "binance_snapshot B xpair st = Inr st1"
    and "last_update_id st1 pair = Some lid"
    and "map_of msg ''U'' = Some (JInt U)" and "map_of msg ''u'' = Some (JInt u)"
    and "lid < u" and "U \<le> lid + 1"
    and "binance_book B msg xpair timestamp st = Inr st'"
  shows "requests st' = requests st @ [snapshot_url B xpair] \<and>
         last_update_id st' pair = Some u \<and>
         (\<exists>bk dl ts. l2_book st' pair = Some bk \<and>
            events st' = events st @ [BookCb bk pair True dl ts timestamp])"
proof -
  let ?st2 = "(forced_touch pair st1)\<lparr>last_update_id := (last_update_id st1)(pair \<mapsto> u),
                 forced := (forced (forced_touch pair st1))(pair \<mapsto> True)\<rparr>"
  from binance_snapshot_frame(4) [OF assms(4)] assms(3) have f: "\<not> forced_get st1 pair"
    by (simp add: forced_get_def)
  have c: "binance_check_update_id pair msg st1 = Inr ((False, True), ?st2)"
    using f assms(8,9) by (simp add: binance_check_cases [OF assms(5,6,7)])
  from assms(10) have "binance_book_apply B msg pair timestamp True ?st2 = Inr st'"
    by (simp add: binance_book_def std_symbol_def assms(1,2,4) c)
  from binance_book_apply_frame [OF this] binance_snapshot_frame(1,2) [OF assms(4)]
  show ?thesis by simp
qed

lemma poloniex_snapshot_frame:
  assumes "poloniex_snapshot P xsym pst = Inr pst1"
    and "exchange_symbol_to_std_symbol P xsym = Some symbol"
  shows "\<exists>call. p_requests pst1 = p_requests pst @ [xsym] \<and>
           p_events pst1 = p_events pst @ [BookEv call] \<and> cb_delta call = None \<and>
           seq_no pst1 symbol = Some (cb_sequence_number call) \<and>
           p_l2_book pst1 symbol = Some (book_callback P call)"
  using assms
  by (auto simp add: poloniex_snapshot_def Let_def bnd_eq_Inr p_std_symbol_def snapshot_call_def
        split: option.splits)

lemma poloniex_check_frame:
  assumes "poloniex_check_update_id P symbol dv st = Inr (skip, st')"
  shows "p_events st' = p_events st \<and> p_requests st' = p_requests st"
  using assms
  by (auto simp add: poloniex_check_update_id_def bnd_eq_Inr split: if_splits)

lemma list3_case_Inr:
  assumes "(case xs of [p, s, a] \<Rightarrow> f p s a | _ \<Rightarrow> Inl e) = Inr y"
  obtains p s a where "f p s a = Inr y"
  using assms by (auto split: list.splits)

lemma poloniex_book_tail:
  assumes "bnd (poloniex_check_update_id P symbol dv st1) (\<lambda>(skip_update, st2).
        if skip_update then Inr st2
        else
          bnd (as_dict dv) (\<lambda>data.
          bnd (getitem data ''timestamp'') (\<lambda>ts.
          bnd (bnd (getitem data ''change'') str_method) (\<lambda>change.
            (case split_on CHR '','' change of
               [p, s, a] \<Rightarrow>
                 bnd (p_decimal P (JStr p)) (\<lambda>price.
                 bnd (p_decimal P (JStr a)) (\<lambda>amount.
                 bnd (p_book_of st2 symbol) (\<lambda>bk.
                   (case poloniex_apply_change (if s = ''buy'' then BID else ASK) price amount
                           (bk, empty_delta) of
                      (bk', dl) \<Rightarrow>
                        bnd (get_int data ''sequence'') (\<lambda>sq.
                          (let call = update_call bk' timestamp ts dl sq in
                           Inr (st2\<lparr>p_l2_book := (p_l2_book st2)(symbol \<mapsto> book_callback P call),
                                    p_events := p_events st2 @ [BookEv call]\<rparr>)))))))
             | _ \<Rightarrow> Inl ValueError))))) = Inr st'"
  shows "p_requests st' = p_requests st1 \<and> (\<exists>rest. p_events st' = p_events st1 @ rest)"
proof -
  from assms obtain skip st2 where
    c: "poloniex_check_update_id P symbol dv st1 = Inr (skip, st2)"
    by (auto simp add: bnd_eq_Inr)
  note f = poloniex_check_frame [OF c]
  show ?thesis
  proof (cases skip)
    case True
    with assms c f show ?thesis by simp
  next
    case False
    with assms c obtain data ts change where 1:
      "(case split_on CHR '','' change of
          [p, s, a] \<Rightarrow>
            bnd (p_decimal P (JStr p)) (\<lambda>price.
            bnd (p_decimal P (JStr a)) (\<lambda>amount.
            bnd (p_book_of st2 symbol) (\<lambda>bk.
              (case poloniex_apply_change (if s = ''buy'' then BID else ASK) price amount
                      (bk, empty_delta) of
                 (bk', dl) \<Rightarrow>
                   bnd (get_int data ''sequence'') (\<lambda>sq.
                     (let call = update_call bk' timestamp ts dl sq in
                      Inr (st2\<lparr>p_l2_book := (p_l2_book st2)(symbol \<mapsto> book_callback P call),
                               p_events := p_events st2 @ [BookEv call]\<rparr>)))))))
        | _ \<Rightarrow> Inl ValueError) = Inr st'"
      by (auto simp add: bnd_eq_Inr)
    then obtain p s a where 2:
      "bnd (p_decimal P (JStr p)) (\<lambda>price.
       bnd (p_decimal P (JStr a)) (\<lambda>amount.
       bnd (p_book_of st2 symbol) (\<lambda>bk.
         (case poloniex_apply_change (if s = ''buy'' then BID else ASK) price amount
                 (bk, empty_delta) of
            (bk', dl) \<Rightarrow>
              bnd (get_int data ''sequence'') (\<lambda>sq.
                (let call = update_call bk' timestamp ts dl sq in
                 Inr (st2\<lparr>p_l2_book := (p_l2_book st2)(symbol \<mapsto> book_callback P call),
                          p_events := p_events st2 @ [BookEv call]\<rparr>))))))) = Inr st'"
      by (rule list3_case_Inr)
    then obtain price amount bk where 3:
      "(case poloniex_apply_change (if s = ''buy'' then BID else ASK) price amount
                 (bk, empty_delta) of
            (bk', dl) \<Rightarrow>
              bnd (get_int data ''sequence'') (\<lambda>sq.
                (let call = update_call bk' timestamp ts dl sq in
                 Inr (st2\<lparr>p_l2_book := (p_l2_book st2)(symbol \<mapsto> book_callback P call),
                          p_events := p_events st2 @ [BookEv call]\<rparr>)))) = Inr st'"
      by (auto simp add: bnd_eq_Inr)
    obtain bk' dl where 4:
      "poloniex_apply_change (if s = ''buy'' then BID else ASK) price amount (bk, empty_delta)
         = (bk', dl)"
      by (cases "poloniex_apply_change (if s = ''buy'' then BID else ASK) price amount
                   (bk, empty_delta)")
    from 3 obtain sq where
      "st' = st2\<lparr>p_l2_book := (p_l2_book st2)(symbol \<mapsto>
                     book_callback P (update_call bk' timestamp ts dl sq)),
                 p_events := p_events st2 @ [BookEv (update_call bk' timestamp ts dl sq)]\<rparr>"
      unfolding 4 by (auto simp add: bnd_eq_Inr Let_def)
    with f show ?thesis by simp
  qed
qed

lemma poloniex_book_bootstrap:
  assumes "map_of pmsg ''topic'' = Some (JStr topic)"
    and "last (split_on CHR '':'' topic) = xsym"
    and "exchange_symbol_to_std_symbol P xsym = Some symbol"
    and "p_l2_book pst symbol = None"
    and "poloniex_snapshot P xsym pst = Inr pst1"
    and "poloniex_book P pmsg timestamp pst = Inr pst'"
  shows "p_requests pst' = p_requests pst1 \<and> (\<exists>rest. p_events pst' = p_events pst1 @ rest)"
proof -
  from assms(6) obtain dv where d: "getitem pmsg ''data'' = Inr dv"
    by (auto simp add: poloniex_book_def Let_def str_method_def p_std_symbol_def bnd_eq_Inr
          assms(1,2,3,4,5))
  from assms(6) show ?thesis
    unfolding poloniex_book_def
    by (simp add: Let_def str_method_def p_std_symbol_def assms(1,2,3,4,5) d)
       (rule poloniex_book_tail)
qed

lemma poloniex_book_first_skipped:
  assumes "map_of pmsg ''topic'' = Some (JStr topic)"
    and "last (split_on CHR '':'' topic) = xsym"
    and "exchange_symbol_to_std_symbol P xsym = Some symbol"
    and "p_l2_book pst symbol = None"
    and "poloniex_snapshot P xsym pst = Inr pst1"
    and "map_of pmsg ''data'' = Some (JObj pdata)"
    and "map_of pdata ''sequence'' = Some (JInt dsq)"
    and "p_l2_book pst1 symbol = Some bk" and "seq_no pst1 symbol = Some sq"
    and "sequence_number bk = None \<or> dsq \<le> sq"
  shows "poloniex_book P pmsg timestamp pst = Inr pst1"
proof -
  have "poloniex_check_update_id P symbol (JObj pdata) pst1 = Inr (True, pst1)"
    using assms(7,8,9,10) by (auto simp add: poloniex_check_update_id_def as_dict_def)
  then show ?thesis
    by (simp add: poloniex_book_def Let_def str_method_def p_std_symbol_def assms(1,2,3,4,5,6))
qed

lemma sample_binance_fields [simp]:
  "conn_get sample_binance n url = Some (JObj depth_snapshot)"
  "symbol_exchange_to_std sample_binance ''BNBBTC'' = Some ''BNB-BTC''"
  "Decimal sample_binance = sample_decimal"
  "rest_endpoint sample_binance = ''https://www.binance.com/api/v1''"
  "max_depth sample_binance = None"
  by (simp_all add: sample_binance_def)

lemma sample_poloniex_fields [simp]:
  "http_read sample_poloniex n s = Some (JObj [(''code'', JStr ''200000''), (''data'', JObj l2_snapshot)])"
  "exchange_symbol_to_std_symbol sample_poloniex ''EGLDUSDTPERP'' = Some ''EGLD-USDT-PERP''"
  "p_Decimal sample_poloniex = sample_decimal"
  "book_callback sample_poloniex c = (cb_book c)\<lparr>sequence_number := Some (cb_sequence_number c)\<rparr>"
  by (simp_all add: sample_poloniex_def)

lemma sample_price_amount [simp]:
  "price_amount sample_binance (JArr [JInt a, JInt b]) = Inr (of_int a, of_int b)"
  by (simp add: price_amount_def as_list_def item_def decimal_def sample_decimal_def)

lemma sample_p_price_amount [simp]:
  "p_price_amount sample_poloniex (JArr [JInt a, JInt b]) = Inr (of_int a, of_int b)"
  by (simp add: p_price_amount_def as_list_def p_decimal_def sample_decimal_def)

lemma sample_snapshot_url:
  "snapshot_url sample_binance ''BNBBTC'' =
     ''https://www.binance.com/api/v1/depth?symbol=BNBBTC&limit=1000''"
  by (simp add: snapshot_url_def snapshot_limit_def valid_depths_def str_int_def str_nat.simps)

lemma sample_bootstrap: "binance_snapshot sample_binance ''BNBBTC'' unsynced = Inr bootstrapped"
proof -
  have "binance_snapshot sample_binance ''BNBBTC'' unsynced =
           Inr (unsynced\<lparr>requests := requests unsynced @ [snapshot_url sample_binance ''BNBBTC''],
                   last_update_id := (last_update_id unsynced)(''BNB-BTC'' \<mapsto> 160),
                   l2_book := (l2_book unsynced)(''BNB-BTC'' \<mapsto>
                      l2_of (map_of (rev [(50, 10)])) (map_of (rev [(51, 5)])))\<rparr>)"
    by (rule binance_snapshot_ok [where resp = depth_snapshot
          and bxs = "[JArr [JInt 50, JInt 10]]" and axs = "[JArr [JInt 51, JInt 5]]"])
       (simp_all add: depth_snapshot_def)
  then show ?thesis
    by (simp add: bootstrapped_def unsynced_def sample_snapshot_url)
qed

lemma bootstrapped_fields [simp]:
  "last_update_id bootstrapped ''BNB-BTC'' = Some 160"
  "l2_book bootstrapped ''BNB-BTC'' = Some (l2_of [50 \<mapsto> 10] [51 \<mapsto> 5])"
  "forced_get bootstrapped ''BNB-BTC'' = False"
  "events bootstrapped = []"
  "requests bootstrapped = [''https://www.binance.com/api/v1/depth?symbol=BNBBTC&limit=1000'']"
  by (simp_all add: bootstrapped_def unsynced_def forced_get_def)

lemma unsynced_fields [simp]:
  "l2_book unsynced = Map.empty" "events unsynced = []" "requests unsynced = []"
  "forced_get unsynced p = False"
  by (simp_all add: unsynced_def forced_get_def)



lemma sample_first_update:
  "binance_check_update_id ''BNB-BTC''
     (depth_update 161 162 [JArr [JInt 50, JInt 0]] [JArr [JInt 51, JInt 8]]) bootstrapped
   = Inr ((False, True),
          (forced_touch ''BNB-BTC'' bootstrapped)
            \<lparr>last_update_id := (last_update_id bootstrapped)(''BNB-BTC'' \<mapsto> 162),
             forced := (forced (forced_touch ''BNB-BTC'' bootstrapped))(''BNB-BTC'' \<mapsto> True)\<rparr>)"
  by (simp add: binance_check_cases [where l = 160 and U = 161 and u = 162]
        depth_update_U depth_update_u)

lemma sample_end_to_end:
  "\<exists>st' bk dl.
     binance_book sample_binance
       (depth_update 161 162 [JArr [JInt 50, JInt 0]] [JArr [JInt 51, JInt 8]]) ''BNBBTC'' 0 unsynced
       = Inr st' \<and>
     l2_book st' ''BNB-BTC'' = Some bk \<and> bk BID = Map.empty \<and> bk ASK = [51 \<mapsto> 8] \<and>
     last_update_id st' ''BNB-BTC'' = Some 162 \<and>
     events st' = [BookCb bk ''BNB-BTC'' True dl (JInt 123456789) 0] \<and>
     dl BID = [(50, 0)] \<and> dl ASK = [(51, 8)]"
proof -
  let ?m = "depth_update 161 162 [JArr [JInt 50, JInt 0]] [JArr [JInt 51, JInt 8]]"
  let ?st2 = "(forced_touch ''BNB-BTC'' bootstrapped)
            \<lparr>last_update_id := (last_update_id bootstrapped)(''BNB-BTC'' \<mapsto> 162),
             forced := (forced (forced_touch ''BNB-BTC'' bootstrapped))(''BNB-BTC'' \<mapsto> True)\<rparr>"
  have 1: "binance_book sample_binance ?m ''BNBBTC'' 0 unsynced
             = binance_book_apply sample_binance ?m ''BNB-BTC'' 0 True ?st2"
    by (simp add: binance_book_def std_symbol_def sample_bootstrap sample_first_update)
  have 2: "\<exists>st' bk dl.
     binance_book_apply sample_binance ?m ''BNB-BTC'' 0 True ?st2 = Inr st' \<and>
     l2_book st' ''BNB-BTC'' = Some bk \<and> bk BID = Map.empty \<and> bk ASK = [51 \<mapsto> 8] \<and>
     last_update_id st' ''BNB-BTC'' = Some 162 \<and>
     events st' = [BookCb bk ''BNB-BTC'' True dl (JInt 123456789) 0] \<and>
     dl BID = [(50, 0)] \<and> dl ASK = [(51, 8)]"
    by (simp add: binance_book_apply_def binance_apply_side_def as_list_def
          binance_apply_update_def book_of_def depth_update_def forced_touch_def l2_of_def
          empty_delta_def)
  from 2 show ?thesis unfolding 1 .
qed


text \<open>
  C3 (gap), as the code has it. The check runs in the state \<open>st1\<close>: the state \<open>st\<close> in which
  the delta arrives when the pair has a book, and otherwise the state that \<^verbatim>\<open>_snapshot\<close> has
  just left, one request later. When the check finds a gap there (a first update that is
  neither stale nor covers \<open>l + 1\<close>, or a later update with \<open>U \<noteq> l + 1\<close>), \<^verbatim>\<open>_book\<close> returns
  normally without a callback and without a request of its own, logs the warning, and
  leaves the feed reset as a whole: the books, the last identifiers and the first-update
  flags of all pairs are gone, those of the other pairs included. The next delta for any
  pair, the gapped one included, that \<^verbatim>\<open>_book\<close> handles to its end has made exactly one
  snapshot request.
\<close>

theorem C3_gap_resets_feed:
  assumes "symbol_exchange_to_std B xpair = Some pair"
    and "(l2_book st pair \<noteq> None \<and> st1 = st) \<or>
         (l2_book st pair = None \<and> binance_snapshot B xpair st = Inr st1)"
    and "last_update_id st1 pair = Some l"
    and "map_of msg ''U'' = Some (JInt U)"
    and "(\<not> forced_get st1 pair \<and> map_of msg ''u'' = Some (JInt u) \<and> l < u \<and> l + 1 < U) \<or>
         (forced_get st1 pair \<and> l + 1 \<noteq> U)"
  shows "\<exists>st'. binance_book B msg xpair timestamp st = Inr st' \<and>
           events st' = events st \<and>
           requests st' = (if l2_book st pair = None then requests st @ [snapshot_url B xpair]
                           else requests st) \<and>
           warnings st' = warnings st @
              [LogWarning ''Missing book update detected, resetting book'' None] \<and>
           l2_book st' = Map.empty \<and> last_update_id st' = Map.empty \<and> forced st' = Map.empty \<and>
           (\<forall>msg2 xpair2 pair2 t2 st''.
              symbol_exchange_to_std B xpair2 = Some pair2 \<and>
              binance_book B msg2 xpair2 t2 st' = Inr st''
              \<longrightarrow> requests st'' = requests st' @ [snapshot_url B xpair2])"
proof -
  let ?st' = "missing_update (forced_touch pair st1)"
  have r: "binance_book B msg xpair timestamp st = Inr ?st'"
    using assms by (rule binance_book_gap_after)
  from assms(2) have f:
    "events st1 = events st" "warnings st1 = warnings st"
    "requests st1 = (if l2_book st pair = None then requests st @ [snapshot_url B xpair]
                     else requests st)"
    by (auto dest: binance_snapshot_frame)
  have n: "requests st'' = requests ?st' @ [snapshot_url B xpair2]"
    if "symbol_exchange_to_std B xpair2 = Some pair2"
      and "binance_book B msg2 xpair2 t2 ?st' = Inr st''" for msg2 xpair2 pair2 t2 st''
    using that binance_book_bootstrap [of B xpair2 pair2 ?st' msg2 t2 st''] by simp
  have e: "events ?st' = events st"
    "requests ?st' = (if l2_book st pair = None then requests st @ [snapshot_url B xpair]
                      else requests st)"
    "warnings ?st' = warnings st @ [LogWarning ''Missing book update detected, resetting book'' None]"
    "l2_book ?st' = Map.empty" "last_update_id ?st' = Map.empty" "forced ?st' = Map.empty"
    using f by simp_all
  from r e n show ?thesis by blast
qed

lemma two_books_fields [simp]:
  "l2_book two_books ''BNB-BTC'' = Some (l2_of [50 \<mapsto> 10] [51 \<mapsto> 5])"
  "l2_book two_books ''BTC-USDT'' = Some (l2_of [19000 \<mapsto> 1] [19001 \<mapsto> 2])"
  "last_update_id two_books ''BNB-BTC'' = Some 150"
  "last_update_id two_books ''BTC-USDT'' = Some 900"
  "forced_get two_books ''BNB-BTC'' = True"
  "events two_books = []" "requests two_books = []" "warnings two_books = []"
  by (simp_all add: two_books_def forced_get_def)

theorem C3_other_books_destroyed_counterexample:
  "binance_book sample_binance (depth_update 160 165 [] []) ''BNBBTC'' 0 two_books
     = Inr (missing_update (forced_touch ''BNB-BTC'' two_books)) \<and>
   l2_book two_books ''BTC-USDT'' = Some (l2_of [19000 \<mapsto> 1] [19001 \<mapsto> 2]) \<and>
   last_update_id two_books ''BTC-USDT'' = Some 900 \<and>
   l2_book (missing_update (forced_touch ''BNB-BTC'' two_books)) ''BTC-USDT'' = None \<and>
   last_update_id (missing_update (forced_touch ''BNB-BTC'' two_books)) ''BTC-USDT'' = None"
proof -
  have "binance_book sample_binance (depth_update 160 165 [] []) ''BNBBTC'' 0 two_books
     = Inr (missing_update (forced_touch ''BNB-BTC'' two_books))"
    by (rule binance_book_gap [where l = 150 and U = 160 and u = 165])
       (simp_all add: depth_update_U depth_update_u)
  then show ?thesis by simp
qed

lemma sample_run_from_empty:
  assumes "l2_book S ''BNB-BTC'' = None" and "forced S ''BNB-BTC'' = None"
  shows "\<exists>st''. binance_book sample_binance
            (depth_update 161 162 [JArr [JInt 50, JInt 0]] [JArr [JInt 51, JInt 8]])
            ''BNBBTC'' t S = Inr st''"
proof -
  let ?m = "depth_update 161 162 [JArr [JInt 50, JInt 0]] [JArr [JInt 51, JInt 8]]"
  let ?S1 = "S\<lparr>requests := requests S @ [snapshot_url sample_binance ''BNBBTC''],
               last_update_id := (last_update_id S)(''BNB-BTC'' \<mapsto> 160),
               l2_book := (l2_book S)(''BNB-BTC'' \<mapsto>
                  l2_of (map_of (rev [(50, 10)])) (map_of (rev [(51, 5)])))\<rparr>"
  let ?S2 = "(forced_touch ''BNB-BTC'' ?S1)
            \<lparr>last_update_id := (last_update_id ?S1)(''BNB-BTC'' \<mapsto> 162),
             forced := (forced (forced_touch ''BNB-BTC'' ?S1))(''BNB-BTC'' \<mapsto> True)\<rparr>"
  have 1: "binance_snapshot sample_binance ''BNBBTC'' S = Inr ?S1"
    by (rule binance_snapshot_ok [where resp = depth_snapshot
          and bxs = "[JArr [JInt 50, JInt 10]]" and axs = "[JArr [JInt 51, JInt 5]]"])
       (simp_all add: depth_snapshot_def)
  have f: "\<not> forced_get ?S1 ''BNB-BTC''"
    using assms(2) by (simp add: forced_get_def)
  have 2: "binance_check_update_id ''BNB-BTC'' ?m ?S1 = Inr ((False, True), ?S2)"
    using f by (simp add: binance_check_cases [where l = 160 and U = 161 and u = 162]
                  depth_update_U depth_update_u)
  have 3: "binance_book sample_binance ?m ''BNBBTC'' t S
             = binance_book_apply sample_binance ?m ''BNB-BTC'' t True ?S2"
    by (simp only: binance_book_def std_symbol_def sample_binance_fields option.case bnd_Inr
          assms(1) simp_thms if_True if_False 1 2 prod.case)
  have 4: "\<exists>st''. binance_book_apply sample_binance ?m ''BNB-BTC'' t True ?S2 = Inr st''"
    by (simp add: binance_book_apply_def binance_apply_side_def as_list_def
          binance_apply_update_def book_of_def depth_update_def forced_touch_def l2_of_def
          empty_delta_def)
  from 4 show ?thesis unfolding 3 .
qed

theorem C3_gap_resets_feed_witness:
  "(\<exists>st'. binance_book sample_binance (depth_update 160 165 [] []) ''BNBBTC'' 0 two_books = Inr st' \<and>
          events st' = events two_books \<and> requests st' = requests two_books \<and>
          l2_book st' = Map.empty \<and> last_update_id st' = Map.empty \<and> forced st' = Map.empty \<and>
          (\<exists>st''. binance_book sample_binance
                    (depth_update 161 162 [JArr [JInt 50, JInt 0]] [JArr [JInt 51, JInt 8]])
                    ''BNBBTC'' 1 st' = Inr st'' \<and>
                  requests st'' = requests st' @ [snapshot_url sample_binance ''BNBBTC''])) \<and>
   (\<exists>st'. binance_book sample_binance (depth_update 170 175 [] []) ''BNBBTC'' 0 unsynced = Inr st' \<and>
          events st' = events unsynced \<and>
          requests st' = requests unsynced @ [snapshot_url sample_binance ''BNBBTC''] \<and>
          warnings st' = warnings unsynced @
             [LogWarning ''Missing book update detected, resetting book'' None] \<and>
          l2_book st' = Map.empty \<and> last_update_id st' = Map.empty \<and> forced st' = Map.empty)"
proof -
  let ?m = "depth_update 161 162 [JArr [JInt 50, JInt 0]] [JArr [JInt 51, JInt 8]]"
  have b: "(l2_book two_books ''BNB-BTC'' \<noteq> None \<and> two_books = two_books) \<or>
           (l2_book two_books ''BNB-BTC'' = None \<and>
            binance_snapshot sample_binance ''BNBBTC'' two_books = Inr two_books)"
    by simp
  have g: "(\<not> forced_get two_books ''BNB-BTC'' \<and>
            map_of (depth_update 160 165 [] []) ''u'' = Some (JInt 165) \<and>
            (150::int) < 165 \<and> (150::int) + 1 < 160) \<or>
           (forced_get two_books ''BNB-BTC'' \<and> (150::int) + 1 \<noteq> 160)"
    by simp
  from C3_gap_resets_feed [where B = sample_binance and xpair = "''BNBBTC''"
      and pair = "''BNB-BTC''" and st = two_books and ?st1.0 = two_books and l = 150
      and msg = "depth_update 160 165 [] []" and U = 160 and u = 165 and timestamp = 0,
      OF sample_binance_fields(2) b two_books_fields(3) depth_update_U g]
  obtain st' where
    r: "binance_book sample_binance (depth_update 160 165 [] []) ''BNBBTC'' 0 two_books = Inr st'" and
    e: "events st' = events two_books"
       "requests st' = (if l2_book two_books ''BNB-BTC'' = None
                        then requests two_books @ [snapshot_url sample_binance ''BNBBTC'']
                        else requests two_books)" and
    c: "l2_book st' = Map.empty" "last_update_id st' = Map.empty" "forced st' = Map.empty" and
    n: "\<And>msg2 xpair2 pair2 t2 st''.
          symbol_exchange_to_std sample_binance xpair2 = Some pair2 \<Longrightarrow>
          binance_book sample_binance msg2 xpair2 t2 st' = Inr st'' \<Longrightarrow>
          requests st'' = requests st' @ [snapshot_url sample_binance xpair2]"
    by blast
  from e(2) have e2: "requests st' = requests two_books"
    by simp
  from c have "l2_book st' ''BNB-BTC'' = None" "forced st' ''BNB-BTC'' = None"
    by simp_all
  from sample_run_from_empty [OF this, of 1] obtain st'' where
    s: "binance_book sample_binance ?m ''BNBBTC'' 1 st' = Inr st''"
    by blast
  from n [OF sample_binance_fields(2) s]
  have q: "requests st'' = requests st' @ [snapshot_url sample_binance ''BNBBTC'']" .
  from s q have "\<exists>st''. binance_book sample_binance ?m ''BNBBTC'' 1 st' = Inr st'' \<and>
                  requests st'' = requests st' @ [snapshot_url sample_binance ''BNBBTC'']"
    by (intro exI conjI)
  with r e(1) e2 c have
    "binance_book sample_binance (depth_update 160 165 [] []) ''BNBBTC'' 0 two_books = Inr st' \<and>
     events st' = events two_books \<and> requests st' = requests two_books \<and>
     l2_book st' = Map.empty \<and> last_update_id st' = Map.empty \<and> forced st' = Map.empty \<and>
     (\<exists>st''. binance_book sample_binance ?m ''BNBBTC'' 1 st' = Inr st'' \<and>
             requests st'' = requests st' @ [snapshot_url sample_binance ''BNBBTC''])"
    by (intro conjI)
  then have first: "\<exists>st'.
     binance_book sample_binance (depth_update 160 165 [] []) ''BNBBTC'' 0 two_books = Inr st' \<and>
     events st' = events two_books \<and> requests st' = requests two_books \<and>
     l2_book st' = Map.empty \<and> last_update_id st' = Map.empty \<and> forced st' = Map.empty \<and>
     (\<exists>st''. binance_book sample_binance ?m ''BNBBTC'' 1 st' = Inr st'' \<and>
             requests st'' = requests st' @ [snapshot_url sample_binance ''BNBBTC''])"
    by (intro exI)
  have b': "(l2_book unsynced ''BNB-BTC'' \<noteq> None \<and> bootstrapped = unsynced) \<or>
           (l2_book unsynced ''BNB-BTC'' = None \<and>
            binance_snapshot sample_binance ''BNBBTC'' unsynced = Inr bootstrapped)"
    by (simp add: sample_bootstrap)
  have g': "(\<not> forced_get bootstrapped ''BNB-BTC'' \<and>
            map_of (depth_update 170 175 [] []) ''u'' = Some (JInt 175) \<and>
            (160::int) < 175 \<and> (160::int) + 1 < 170) \<or>
           (forced_get bootstrapped ''BNB-BTC'' \<and> (160::int) + 1 \<noteq> 170)"
    by (simp add: depth_update_u)
  from C3_gap_resets_feed [where B = sample_binance and xpair = "''BNBBTC''"
      and pair = "''BNB-BTC''" and st = unsynced and ?st1.0 = bootstrapped and l = 160
      and msg = "depth_update 170 175 [] []" and U = 170 and u = 175 and timestamp = 0,
      OF sample_binance_fields(2) b' bootstrapped_fields(1) depth_update_U g']
  obtain st2 where
    r2: "binance_book sample_binance (depth_update 170 175 [] []) ''BNBBTC'' 0 unsynced = Inr st2" and
    e3: "events st2 = events unsynced"
       "requests st2 = (if l2_book unsynced ''BNB-BTC'' = None
                        then requests unsynced @ [snapshot_url sample_binance ''BNBBTC'']
                        else requests unsynced)"
       "warnings st2 = warnings unsynced @
             [LogWarning ''Missing book update detected, resetting book'' None]" and
    c2: "l2_book st2 = Map.empty" "last_update_id st2 = Map.empty" "forced st2 = Map.empty"
    by blast
  from e3(2) have e4: "requests st2 = requests unsynced @ [snapshot_url sample_binance ''BNBBTC'']"
    by simp
  from r2 e3(1) e4 e3(3) c2 have
    "binance_book sample_binance (depth_update 170 175 [] []) ''BNBBTC'' 0 unsynced = Inr st2 \<and>
          events st2 = events unsynced \<and>
          requests st2 = requests unsynced @ [snapshot_url sample_binance ''BNBBTC''] \<and>
          warnings st2 = warnings unsynced @
             [LogWarning ''Missing book update detected, resetting book'' None] \<and>
          l2_book st2 = Map.empty \<and> last_update_id st2 = Map.empty \<and> forced st2 = Map.empty"
    by (intro conjI)
  then have second: "\<exists>st'.
     binance_book sample_binance (depth_update 170 175 [] []) ''BNBBTC'' 0 unsynced = Inr st' \<and>
          events st' = events unsynced \<and>
          requests st' = requests unsynced @ [snapshot_url sample_binance ''BNBBTC''] \<and>
          warnings st' = warnings unsynced @
             [LogWarning ''Missing book update detected, resetting book'' None] \<and>
          l2_book st' = Map.empty \<and> last_update_id st' = Map.empty \<and> forced st' = Map.empty"
    by (intro exI)
  from first second show ?thesis
    by (rule conjI)
qed

subsection \<open>Connection addresses\<close>

lemma div_block: "r < cap \<Longrightarrow> (cap * q + r) div (cap::nat) = q"
  by simp

lemma ceil_div:
  fixes n cap :: nat
  assumes "0 < cap"
  shows "(n + cap - 1) div cap = n div cap + (if n mod cap = 0 then 0 else 1)"
proof -
  define q r where "q = n div cap" and "r = n mod cap"
  have n: "n = cap * q + r"
    unfolding q_def r_def by (metis mult_div_mod_eq)
  have r: "r < cap"
    unfolding r_def using assms by simp
  have m: "cap * (q + 1) = cap * q + cap"
    by simp
  show ?thesis
  proof (cases "r = 0")
    case True
    with n assms have "n + cap - 1 = cap * q + (cap - 1)" by linarith
    moreover have "cap - 1 < cap" using assms by simp
    ultimately have "(n + cap - 1) div cap = q"
      using div_block [of "cap - 1" cap q] by simp
    with True show ?thesis unfolding q_def r_def by simp
  next
    case False
    with n m have "n + cap - 1 = cap * (q + 1) + (r - 1)" by linarith
    moreover have "r - 1 < cap" using r by simp
    ultimately have "(n + cap - 1) div cap = q + 1"
      using div_block [of "r - 1" cap "q + 1"] by simp
    with False show ?thesis unfolding q_def r_def by simp
  qed
qed

lemma seal_step_pair:
  "seal_step cap x (sealed, cur) =
     (if length cur + 1 = cap then (sealed @ [cur @ [x]], []) else (sealed, cur @ [x]))"
  by (simp add: seal_step_def)

lemma seal_step_concat:
  "fold (seal_step cap) xs (sealed, cur) = (sealed', cur') \<Longrightarrow>
     concat sealed' @ cur' = concat sealed @ cur @ xs"
proof (induction xs arbitrary: sealed cur)
  case Nil
  then show ?case by simp
next
  case (Cons x xs)
  show ?case
  proof (cases "length cur + 1 = cap")
    case True
    with Cons.prems have "fold (seal_step cap) xs (sealed @ [cur @ [x]], []) = (sealed', cur')"
      by (simp add: seal_step_pair)
    from Cons.IH [OF this] show ?thesis by simp
  next
    case False
    with Cons.prems have "fold (seal_step cap) xs (sealed, cur @ [x]) = (sealed', cur')"
      by (simp add: seal_step_pair)
    from Cons.IH [OF this] show ?thesis by simp
  qed
qed

lemma seal_step_sizes:
  "fold (seal_step cap) xs (sealed, cur) = (sealed', cur') \<Longrightarrow> length cur < cap \<Longrightarrow>
   \<forall>sh \<in> set sealed. length sh = cap \<Longrightarrow>
     (\<forall>sh \<in> set sealed'. length sh = cap) \<and>
     length sealed' = length sealed + (length cur + length xs) div cap \<and>
     length cur' = (length cur + length xs) mod cap"
proof (induction xs arbitrary: sealed cur)
  case Nil
  then show ?case by simp
next
  case (Cons x xs)
  show ?case
  proof (cases "length cur + 1 = cap")
    case True
    with Cons.prems have f: "fold (seal_step cap) xs (sealed @ [cur @ [x]], []) = (sealed', cur')"
      by (simp add: seal_step_pair)
    have a: "\<forall>sh \<in> set (sealed @ [cur @ [x]]). length sh = cap"
      using Cons.prems(3) True by auto
    have cap: "0 < cap" using Cons.prems(2) by simp
    from Cons.IH [OF f _ a] cap
    have r: "\<forall>sh \<in> set sealed'. length sh = cap"
          "length sealed' = length sealed + (1 + length xs div cap)"
          "length cur' = length xs mod cap"
      by simp_all
    have e: "length cur + length (x # xs) = cap + length xs"
      using True by simp
    have d: "(cap + length xs) div cap = 1 + length xs div cap"
      "(cap + length xs) mod cap = length xs mod cap"
      using cap by simp_all
    show ?thesis
      unfolding e d using r by (intro conjI)
  next
    case False
    with Cons.prems have f: "fold (seal_step cap) xs (sealed, cur @ [x]) = (sealed', cur')"
      by (simp add: seal_step_pair)
    have "length (cur @ [x]) < cap"
      using Cons.prems(2) False by simp
    from Cons.IH [OF f this Cons.prems(3)] show ?thesis by simp
  qed
qed

lemma shard_properties:
  assumes "0 < cap"
  shows "concat (shard cap xs) = xs"
    and "length (shard cap xs) = (length xs + cap - 1) div cap"
    and "\<forall>sh \<in> set (shard cap xs). 0 < length sh \<and> length sh \<le> cap"
    and "map length (shard cap xs) =
           replicate (length xs div cap) cap @ (if length xs mod cap = 0 then [] else [length xs mod cap])"
proof -
  obtain sealed cur where f: "fold (seal_step cap) xs ([], []) = (sealed, cur)"
    by (cases "fold (seal_step cap) xs ([], [])")
  from seal_step_concat [OF f] have c: "concat sealed @ cur = xs" by simp
  from seal_step_sizes [OF f] assms
  have s: "\<forall>sh \<in> set sealed. length sh = cap" "length sealed = length xs div cap"
    "length cur = length xs mod cap"
    by simp_all
  from s(3) have ce: "(cur = []) = (length xs mod cap = 0)"
    by (metis length_0_conv)
  have sh: "shard cap xs = (if length xs mod cap = 0 then sealed else sealed @ [cur])"
    using ce by (simp add: shard_def close_shards_def f)
  show "concat (shard cap xs) = xs"
  proof (cases "length xs mod cap = 0")
    case True
    with ce c sh show ?thesis by simp
  next
    case False
    with c sh show ?thesis by simp
  qed
  from ceil_div [OF assms, of "length xs"]
  have "(length xs + cap - 1) div cap = length xs div cap + (if length xs mod cap = 0 then 0 else 1)" .
  with sh s show "length (shard cap xs) = (length xs + cap - 1) div cap" by auto
  from sh s assms show "\<forall>sh \<in> set (shard cap xs). 0 < length sh \<and> length sh \<le> cap"
    by auto
  have "map length sealed = replicate (length sealed) cap"
    using s(1) by (simp add: map_replicate_const [symmetric] cong: map_cong)
  with sh s show "map length (shard cap xs) =
           replicate (length xs div cap) cap @ (if length xs mod cap = 0 then [] else [length xs mod cap])"
    by auto
qed

lemma alist_update_fresh: "k \<notin> fst ` set al \<Longrightarrow> AList.update k v al = al @ [(k, v)]"
  by (induction al) auto

lemma address_inv_pair:
  "address_inv base s (sealed, cur) \<longleftrightarrow>
     ret s = map (shard_entry base) sealed \<and> counter s = length cur \<and>
     addr s = base @ concat cur \<and> (cur \<noteq> [] \<longrightarrow> stream s = last cur)"
  by (simp add: address_inv_def)

lemma shard_entry_keys: "fst ` shard_entry base ` set sealed = last ` set sealed"
  by (simp add: image_image shard_entry_def)

lemma last_in_concat:
  assumes "\<forall>sh \<in> set sealed. sh \<noteq> []" and "k \<in> last ` set sealed"
  shows "k \<in> set (concat sealed)"
proof -
  from assms(2) obtain sh where "sh \<in> set sealed" "k = last sh" by blast
  moreover from this assms(1) have "last sh \<in> set sh" by simp
  ultimately show ?thesis by auto
qed

lemma address_push_sim:
  assumes "address_inv base s (sealed, cur)" and "length cur < 200"
    and "x \<notin> last ` set sealed"
  shows "address_inv base (address_push base x s) (seal_step 200 x (sealed, cur))"
proof (cases "length cur + 1 = 200")
  case True
  from assms(1) have r: "ret s = map (shard_entry base) sealed" and c: "counter s = length cur"
    and a: "addr s = base @ concat cur"
    by (simp_all add: address_inv_pair)
  from assms(3) r have "x \<notin> fst ` set (ret s)"
    by (simp add: shard_entry_keys)
  then have "AList.update x (butlast (addr s @ x)) (ret s) = ret s @ [(x, butlast (addr s @ x))]"
    by (rule alist_update_fresh)
  moreover have "(x, butlast (addr s @ x)) = shard_entry base (cur @ [x])"
    using a by (simp add: shard_entry_def shard_address_def)
  ultimately have "AList.update x (butlast (addr s @ x)) (ret s)
                     = map (shard_entry base) (sealed @ [cur @ [x]])"
    using r by simp
  with True c show ?thesis
    by (simp add: address_push_def seal_step_pair address_inv_pair Let_def)
next
  case False
  with assms(1) show ?thesis
    by (simp add: address_push_def seal_step_pair address_inv_pair Let_def)
qed

lemma address_fold_sim:
  assumes "address_inv base s (sealed, cur)" and "length cur < 200"
    and "\<forall>sh \<in> set sealed. sh \<noteq> []"
    and "distinct (concat sealed @ cur @ xs)"
  shows "address_inv base (fold (address_push base) xs s) (fold (seal_step 200) xs (sealed, cur))"
  using assms
proof (induction xs arbitrary: s sealed cur)
  case Nil
  then show ?case by simp
next
  case (Cons x xs)
  have fresh: "x \<notin> last ` set sealed"
  proof
    assume "x \<in> last ` set sealed"
    with Cons.prems(3) have "x \<in> set (concat sealed)" by (rule last_in_concat)
    with Cons.prems(4) show False by auto
  qed
  have step: "address_inv base (address_push base x s) (seal_step 200 x (sealed, cur))"
    using Cons.prems(1,2) fresh by (rule address_push_sim)
  show ?case
  proof (cases "length cur + 1 = 200")
    case True
    then have e: "seal_step 200 x (sealed, cur) = (sealed @ [cur @ [x]], [])"
      by (simp add: seal_step_pair)
    have "address_inv base (fold (address_push base) xs (address_push base x s))
            (fold (seal_step 200) xs (sealed @ [cur @ [x]], []))"
    proof (rule Cons.IH)
      show "address_inv base (address_push base x s) (sealed @ [cur @ [x]], [])"
        using step e by simp
      show "length ([]::string list) < 200" by simp
      show "\<forall>sh \<in> set (sealed @ [cur @ [x]]). sh \<noteq> []"
        using Cons.prems(3) by auto
      show "distinct (concat (sealed @ [cur @ [x]]) @ [] @ xs)"
        using Cons.prems(4) by simp
    qed
    with e show ?thesis by simp
  next
    case False
    then have e: "seal_step 200 x (sealed, cur) = (sealed, cur @ [x])"
      by (simp add: seal_step_pair)
    have "address_inv base (fold (address_push base) xs (address_push base x s))
            (fold (seal_step 200) xs (sealed, cur @ [x]))"
    proof (rule Cons.IH)
      show "address_inv base (address_push base x s) (sealed, cur @ [x])"
        using step e by simp
      show "length (cur @ [x]) < 200"
        using Cons.prems(2) False by simp
      show "\<forall>sh \<in> set sealed. sh \<noteq> []"
        by (rule Cons.prems(3))
      show "distinct (concat sealed @ (cur @ [x]) @ xs)"
        using Cons.prems(4) by simp
    qed
    with e show ?thesis by simp
  qed
qed

lemma seal_step_nonempty:
  "fold (seal_step cap) xs (sealed, cur) = (sealed', cur') \<Longrightarrow>
   \<forall>sh \<in> set sealed. sh \<noteq> [] \<Longrightarrow> \<forall>sh \<in> set sealed'. sh \<noteq> []"
proof (induction xs arbitrary: sealed cur)
  case Nil
  then show ?case by simp
next
  case (Cons x xs)
  show ?case
  proof (cases "length cur + 1 = cap")
    case True
    with Cons.prems have f: "fold (seal_step cap) xs (sealed @ [cur @ [x]], []) = (sealed', cur')"
      by (simp add: seal_step_pair)
    have "\<forall>sh \<in> set (sealed @ [cur @ [x]]). sh \<noteq> []"
      using Cons.prems(2) by auto
    with f show ?thesis by (rule Cons.IH)
  next
    case False
    with Cons.prems have f: "fold (seal_step cap) xs (sealed, cur @ [x]) = (sealed', cur')"
      by (simp add: seal_step_pair)
    from f Cons.prems(2) show ?thesis by (rule Cons.IH)
  qed
qed

lemma address_finish_sim:
  assumes "address_inv base s (sealed, cur)"
    and "\<forall>sh \<in> set sealed. sh \<noteq> []" and "distinct (concat sealed @ cur)"
    and "\<forall>x \<in> set cur. x \<noteq> []"
  shows "address_finish base s =
           (if sealed = [] then (if cur = [] then NoAddress else Single (shard_address base cur))
            else Sharded (map (shard_entry base) (close_shards (sealed, cur))))"
proof -
  from assms(1) have r: "ret s = map (shard_entry base) sealed" and c: "counter s = length cur"
    and a: "addr s = base @ concat cur" and l: "cur \<noteq> [] \<longrightarrow> stream s = last cur"
    by (simp_all add: address_inv_pair)
  have ce: "(addr s = base) = (cur = [])"
    using a assms(4) by (cases cur) auto
  show ?thesis
  proof (cases "sealed = []")
    case True
    with r ce a show ?thesis
      by (simp add: address_finish_def shard_address_def)
  next
    case False
    show ?thesis
    proof (cases "cur = []")
      case True
      with False r c show ?thesis
        by (simp add: address_finish_def close_shards_def)
    next
      case nonempty: False
      have "last cur \<notin> last ` set sealed"
      proof
        assume "last cur \<in> last ` set sealed"
        with assms(2) have "last cur \<in> set (concat sealed)" by (rule last_in_concat)
        moreover have "last cur \<in> set cur" using nonempty by simp
        ultimately show False using assms(3) by auto
      qed
      with r have "last cur \<notin> fst ` set (ret s)"
        by (simp add: shard_entry_keys)
      then have "AList.update (last cur) (butlast (addr s)) (ret s)
                   = ret s @ [(last cur, butlast (addr s))]"
        by (rule alist_update_fresh)
      with nonempty False r c a l show ?thesis
        by (simp add: address_finish_def close_shards_def shard_entry_def shard_address_def)
    qed
  qed
qed

lemma address_chan_streams:
  "address_chan B cp s =
     fold (address_push (address_base B))
       (case cp of (chan, pairs) \<Rightarrow>
          if chan = OPEN_INTEREST B then [] else map (stream_name chan) pairs) s"
proof (cases cp)
  case (Pair chan pairs)
  have "fold (address_step (address_base B) chan) pairs s
          = fold (address_push (address_base B)) (map (stream_name chan) pairs) s"
    by (induction pairs arbitrary: s) (simp_all add: address_step_def)
  with Pair show ?thesis by (simp add: address_chan_def)
qed

lemma address_loop_streams:
  "fold (address_chan B) plan s =
     fold (address_push (address_base B))
       (concat (map (\<lambda>(chan, pairs). if chan = OPEN_INTEREST B then []
                                        else map (stream_name chan) pairs) plan)) s"
proof (induction plan arbitrary: s)
  case Nil
  then show ?case by simp
next
  case (Cons cp plan)
  show ?case
    unfolding fold_Cons comp_apply list.map concat.simps fold_append Cons.IH
    by (simp add: address_chan_streams split: prod.splits)
qed

lemma stream_name_nonempty: "stream_name chan pair \<noteq> []"
  by (simp add: stream_name_def)

lemma address_streams_nonempty: "\<forall>x \<in> set (address_streams B). x \<noteq> []"
  by (auto simp add: address_streams_def stream_name_nonempty split: if_splits)

lemma binance_address_shards:
  assumes "distinct (address_streams B)"
  shows "binance_address B =
           (if length (address_streams B) = 0 then NoAddress
            else if length (address_streams B) < 200
              then Single (shard_address (address_base B) (address_streams B))
            else Sharded (map (shard_entry (address_base B)) (shard 200 (address_streams B))))"
proof -
  let ?base = "address_base B" and ?xs = "address_streams B"
  obtain sealed cur where f: "fold (seal_step 200) ?xs ([], []) = (sealed, cur)"
    by (cases "fold (seal_step 200) ?xs ([], [])")
  have i: "address_inv ?base (address_init ?base) ([], [])"
    by (simp add: address_inv_pair address_init_def)
  have "address_inv ?base (fold (address_push ?base) ?xs (address_init ?base))
          (fold (seal_step 200) ?xs ([], []))"
    by (rule address_fold_sim [OF i]) (use assms in simp_all)
  then have inv: "address_inv ?base (fold (address_push ?base) ?xs (address_init ?base)) (sealed, cur)"
    by (simp add: f)
  from seal_step_concat [OF f] have c: "concat sealed @ cur = ?xs" by simp
  from seal_step_sizes [OF f] have s: "length sealed = length ?xs div 200"
    "length cur = length ?xs mod 200"
    by simp_all
  from seal_step_nonempty [OF f] have ne: "\<forall>sh \<in> set sealed. sh \<noteq> []" by simp
  have d: "distinct (concat sealed @ cur)" using c assms by simp
  have n: "\<forall>x \<in> set cur. x \<noteq> []"
    using address_streams_nonempty [of B] c by (metis Un_iff set_append)
  have "binance_address B = address_finish ?base (fold (address_push ?base) ?xs (address_init ?base))"
    by (simp add: binance_address_def address_loop_streams address_streams_def)
  also have "\<dots> = (if sealed = [] then (if cur = [] then NoAddress
                                         else Single (shard_address ?base cur))
                    else Sharded (map (shard_entry ?base) (close_shards (sealed, cur))))"
    by (rule address_finish_sim [OF inv ne d n])
  finally have r: "binance_address B =
      (if sealed = [] then (if cur = [] then NoAddress else Single (shard_address ?base cur))
       else Sharded (map (shard_entry ?base) (close_shards (sealed, cur))))" .
  have sh: "shard 200 ?xs = close_shards (sealed, cur)"
    by (simp add: shard_def f)
  have se: "(sealed = []) = (length ?xs < 200)"
    using s(1) by (metis length_0_conv div_less div_eq_0_iff zero_neq_numeral)
  show ?thesis
  proof (cases "sealed = []")
    case True
    with c have "cur = ?xs" by simp
    with True r se show ?thesis by auto
  next
    case False
    with se have "\<not> length ?xs < 200" "length ?xs \<noteq> 0" by auto
    with False r sh show ?thesis by simp
  qed
qed

lemma concat_unique_index:
  assumes "distinct (concat xss)" and "\<forall>ys \<in> set xss. ys \<noteq> []" and "s \<in> set (concat xss)"
  shows "\<exists>!i. i < length xss \<and> s \<in> set (xss ! i)"
proof (rule ex_ex1I)
  from assms(3) obtain ys where "ys \<in> set xss" "s \<in> set ys" by auto
  then show "\<exists>i. i < length xss \<and> s \<in> set (xss ! i)"
    by (metis in_set_conv_nth)
next
  fix i j
  assume i: "i < length xss \<and> s \<in> set (xss ! i)" and j: "j < length xss \<and> s \<in> set (xss ! j)"
  from assms(2) have "[] \<notin> set xss" by blast
  then have "removeAll [] xss = xss" by (rule removeAll_id)
  with assms(1) have d: "distinct xss"
    and dj: "\<And>ys zs. ys \<in> set xss \<Longrightarrow> zs \<in> set xss \<Longrightarrow> ys \<noteq> zs \<Longrightarrow> set ys \<inter> set zs = {}"
    unfolding distinct_concat_iff by simp_all
  show "i = j"
  proof (rule ccontr)
    assume "i \<noteq> j"
    with d i j have "xss ! i \<noteq> xss ! j" by (simp add: nth_eq_iff_index_eq)
    moreover have "xss ! i \<in> set xss" "xss ! j \<in> set xss" using i j by simp_all
    ultimately have "set (xss ! i) \<inter> set (xss ! j) = {}" by (simp add: dj)
    with i j show False by auto
  qed
qed

lemma shard_single:
  assumes "0 < length xs" and "length xs < cap"
  shows "shard cap xs = [xs]"
proof -
  from assms have cap: "0 < cap" by simp
  have "(length xs + cap - 1) div cap = 1"
    using ceil_div [OF cap, of "length xs"] assms by simp
  with shard_properties(2) [OF cap, of xs] have "length (shard cap xs) = 1" by simp
  then obtain y where y: "shard cap xs = [y]"
    by (cases "shard cap xs") auto
  with shard_properties(1) [OF cap, of xs] show ?thesis by simp
qed

lemma targets_address:
  assumes "distinct (address_streams B)"
  shows "targets (binance_address B) =
           map (shard_address (address_base B)) (shard 200 (address_streams B))"
proof -
  let ?xs = "address_streams B"
  consider "length ?xs = 0" | "0 < length ?xs" "length ?xs < 200" | "200 \<le> length ?xs"
    by linarith
  then show ?thesis
  proof cases
    case 1
    then have "shard 200 ?xs = []"
      by (simp add: shard_def close_shards_def)
    with 1 show ?thesis
      by (simp add: binance_address_shards [OF assms] targets_def)
  next
    case 2
    then have "shard 200 ?xs = [?xs]" by (rule shard_single)
    with 2 show ?thesis
      by (simp add: binance_address_shards [OF assms] targets_def)
  next
    case 3
    then have "length ?xs \<noteq> 0" "\<not> length ?xs < 200" by linarith+
    then show ?thesis
      by (simp add: binance_address_shards [OF assms] targets_def shard_entry_def comp_def)
  qed
qed

lemma subscribed_stream:
  assumes "(c, p) \<in> set (subscribed_pairs B)" and "c \<noteq> OPEN_INTEREST B"
  shows "stream_name c p \<in> set (address_streams B)"
  using assms by (fastforce simp add: subscribed_pairs_def address_streams_def)

text \<open>
  C5 (address sharding), as the code has it. The pairs on the channel \<^verbatim>\<open>OPEN_INTEREST\<close> are
  left out of every address. For the streams of the other pairs, when their names are
  pairwise distinct (the docstring's "since this will be unique"): \<^verbatim>\<open>_address\<close> returns
  nothing for no stream, one address for fewer than 200 streams, and otherwise the dict with
  one entry per shard of the specification's greedy sharder, keyed by the shard's last
  stream; its addresses are the addresses of these shards, in order; their number is
  \<open>\<lceil>n / 200\<rceil>\<close>; the shards put together are the streams, each stream is in exactly one
  shard, and 450 streams give shards of 200, 200 and 50. Every subscribed pair that is not on
  \<^verbatim>\<open>OPEN_INTEREST\<close> has its stream among them.
\<close>

theorem C5_address_sharding:
  assumes "distinct (address_streams B)"
  shows "binance_address B =
           (if length (address_streams B) = 0 then NoAddress
            else if length (address_streams B) < 200
              then Single (shard_address (address_base B) (address_streams B))
            else Sharded (map (shard_entry (address_base B)) (shard 200 (address_streams B)))) \<and>
         targets (binance_address B) =
           map (shard_address (address_base B)) (shard 200 (address_streams B)) \<and>
         length (targets (binance_address B)) = (length (address_streams B) + 199) div 200 \<and>
         concat (shard 200 (address_streams B)) = address_streams B \<and>
         (\<forall>s \<in> set (address_streams B).
            \<exists>!i. i < length (shard 200 (address_streams B)) \<and>
                 s \<in> set (shard 200 (address_streams B) ! i)) \<and>
         (length (address_streams B) = 450 \<longrightarrow>
            map length (shard 200 (address_streams B)) = [200, 200, 50]) \<and>
         (\<forall>(c, p) \<in> set (subscribed_pairs B).
            c \<noteq> OPEN_INTEREST B \<longrightarrow> stream_name c p \<in> set (address_streams B))"
proof (intro conjI)
  let ?xs = "address_streams B"
  have cap: "(0::nat) < 200" by simp
  show "binance_address B =
           (if length ?xs = 0 then NoAddress
            else if length ?xs < 200 then Single (shard_address (address_base B) ?xs)
            else Sharded (map (shard_entry (address_base B)) (shard 200 ?xs)))"
    by (rule binance_address_shards [OF assms])
  show t: "targets (binance_address B) = map (shard_address (address_base B)) (shard 200 ?xs)"
    by (rule targets_address [OF assms])
  show "length (targets (binance_address B)) = (length ?xs + 199) div 200"
    unfolding t using shard_properties(2) [OF cap, of ?xs] by simp
  show c: "concat (shard 200 ?xs) = ?xs"
    by (rule shard_properties(1) [OF cap])
  show "\<forall>s \<in> set ?xs. \<exists>!i. i < length (shard 200 ?xs) \<and> s \<in> set (shard 200 ?xs ! i)"
  proof
    fix s
    assume "s \<in> set ?xs"
    then have "s \<in> set (concat (shard 200 ?xs))" by (simp only: c)
    moreover have "distinct (concat (shard 200 ?xs))" using assms by (simp only: c)
    moreover have "\<forall>ys \<in> set (shard 200 ?xs). ys \<noteq> []"
      using shard_properties(3) [OF cap, of ?xs] by auto
    ultimately show "\<exists>!i. i < length (shard 200 ?xs) \<and> s \<in> set (shard 200 ?xs ! i)"
      by (intro concat_unique_index)
  qed
  show "length ?xs = 450 \<longrightarrow> map length (shard 200 ?xs) = [200, 200, 50]"
  proof
    assume "length ?xs = 450"
    with shard_properties(4) [OF cap, of ?xs] show "map length (shard 200 ?xs) = [200, 200, 50]"
      by (simp add: numeral_2_eq_2)
  qed
  show "\<forall>(c, p) \<in> set (subscribed_pairs B).
            c \<noteq> OPEN_INTEREST B \<longrightarrow> stream_name c p \<in> set ?xs"
    using subscribed_stream by blast
qed

theorem C5_open_interest_dropped_counterexample:
  "subscribed_pairs oi_only = [(''open_interest'', ''BTCUSDT'')] \<and>
   binance_address oi_only = NoAddress \<and>
   targets (binance_address oi_only) = [] \<and>
   length (targets (binance_address oi_only)) \<noteq> (length (subscribed_pairs oi_only) + 199) div 200"
proof -
  have p: "address_plan oi_only = [(''open_interest'', [''BTCUSDT''])]"
    by (simp add: address_plan_def oi_only_def sample_binance_def)
  have o: "OPEN_INTEREST oi_only = ''open_interest''"
    by (simp add: oi_only_def sample_binance_def)
  have s: "subscribed_pairs oi_only = [(''open_interest'', ''BTCUSDT'')]"
    by (simp add: subscribed_pairs_def p)
  have a: "binance_address oi_only = NoAddress"
    by (simp add: binance_address_def p address_chan_def o address_finish_def address_init_def)
  from s a show ?thesis
    by (simp add: targets_def)
qed

lemma sample_streams:
  "address_streams sample_binance =
     [''bnbbtc@aggTrade/'', ''btcusdt@aggTrade/'', ''bnbbtc@depth@100ms/'', ''btcusdt@depth@100ms/'']"
  by (simp add: address_streams_def address_plan_def sample_binance_def stream_name_def
        lower_char_def swap_case_def)

theorem C5_address_sharding_witness:
  "distinct (address_streams sample_binance) \<and>
   binance_address sample_binance =
     Single ''wss://stream.binance.com:9443/stream?streams=bnbbtc@aggTrade/btcusdt@aggTrade/bnbbtc@depth@100ms/btcusdt@depth@100ms'' \<and>
   length (targets (binance_address sample_binance)) = 1"
proof -
  have d: "distinct (address_streams sample_binance)"
    by (simp add: sample_streams)
  have b: "address_base sample_binance = ''wss://stream.binance.com:9443/stream?streams=''"
    by (simp add: address_base_def sample_binance_def)
  from C5_address_sharding [OF d, THEN conjunct1]
  have 1: "binance_address sample_binance =
     Single ''wss://stream.binance.com:9443/stream?streams=bnbbtc@aggTrade/btcusdt@aggTrade/bnbbtc@depth@100ms/btcusdt@depth@100ms''"
    by (simp add: sample_streams b shard_address_def)
  from C5_address_sharding [OF d, THEN conjunct2, THEN conjunct2, THEN conjunct1]
  have 2: "length (targets (binance_address sample_binance)) = 1"
    by (simp add: sample_streams)
  from d 1 2 show ?thesis by (intro conjI)
qed

subsection \<open>The window check does not compare the two identifiers\<close>

text \<open>
  After the first update, an event with \<open>U = l + 1\<close> and a final identifier below \<open>l\<close> is
  accepted and lowers the last identifier: from 150 to 100 here.
\<close>

theorem C7_window_backwards_counterexample:
  "binance_check_update_id ''BNB-BTC'' (depth_update 151 100 [] []) two_books
     = Inr ((False, False),
            (forced_touch ''BNB-BTC'' two_books)
              \<lparr>last_update_id := (last_update_id two_books)(''BNB-BTC'' \<mapsto> 100)\<rparr>) \<and>
   last_update_id two_books ''BNB-BTC'' = Some 150 \<and>
   last_update_id ((forced_touch ''BNB-BTC'' two_books)
              \<lparr>last_update_id := (last_update_id two_books)(''BNB-BTC'' \<mapsto> 100)\<rparr>) ''BNB-BTC''
     = Some 100"
proof -
  have "binance_check_update_id ''BNB-BTC'' (depth_update 151 100 [] []) two_books
     = Inr ((False, False),
            (forced_touch ''BNB-BTC'' two_books)
              \<lparr>last_update_id := (last_update_id two_books)(''BNB-BTC'' \<mapsto> 100)\<rparr>)"
    by (simp add: binance_check_cases [where l = 150 and U = 151 and u = 100]
          depth_update_U depth_update_u)
  then show ?thesis by simp
qed

end
